theory Spec2Isabelle
  imports Main
begin

section \<open>Python values, exceptions and effects\<close>

text \<open>
  The two Lambda handlers of the repository are
  \<^verbatim>\<open>ai-incident-detection/aws-lambda/autoscale_handler.py\<close> (names suffixed \<open>_aid\<close>
  below where they clash) and \<^verbatim>\<open>n8n-workflow-files/lambda/auto_scale_handler.py\<close>
  (suffix \<open>_wf\<close>). Both receive an event that the Lambda runtime has decoded from JSON,
  so an event is a JSON value, of any nesting. A dictionary is an association list whose first binding
  of a key is the one that counts. JSON numbers with a fraction are left out: the
  confidence of an alert is an integer.
\<close>

datatype pyval =
    PNone
  | PBool bool
  | PInt int
  | PStr string
  | PList "pyval list"
  | PDict "(string \<times> pyval) list"

text \<open>
  How deeply the lists and dictionaries of a value are nested: \<^verbatim>\<open>json.dumps\<close> makes
  one recursive call for each level.
\<close>

fun max_list :: "nat list \<Rightarrow> nat" where
  "max_list [] = 0"
| "max_list (x # xs) = max x (max_list xs)"

primrec depth :: "pyval \<Rightarrow> nat" where
  "depth PNone = 0"
| "depth (PBool b) = 0"
| "depth (PInt i) = 0"
| "depth (PStr s) = 0"
| "depth (PList xs) = Suc (max_list (map depth xs))"
| "depth (PDict kvs) = Suc (max_list (map snd (map (map_prod id depth) kvs)))"

text \<open>
  Exceptions are values. \<open>AttributeError\<close> and \<open>TypeError\<close> are raised by the
  interpreter (they carry the offending operands), \<open>ValueError\<close> and \<open>Exception\<close> by the
  \<^verbatim>\<open>raise\<close> statements of the handlers (they carry the message), and
  \<open>ClientError\<close>, \<open>JSONDecodeError\<close> and \<open>RecursionError\<close> by the libraries the
  handlers call. All of them are subclasses of \<^verbatim>\<open>Exception\<close>, which is what the
  handlers catch.
\<close>

datatype exn =
    AttributeError pyval string
  | TypeError string "pyval list"
  | KeyError string
  | ValueError string
  | Exception string
  | ClientError string
  | JSONDecodeError string
  | RecursionError string

text \<open>
  An f-string is kept as the list of its pieces: literal text, \<^verbatim>\<open>str(v)\<close> of a
  value, \<^verbatim>\<open>json.dumps(v)\<close> of a value, \<^verbatim>\<open>str(e)\<close> of an exception. The value of
  a key of a returned dictionary is a Python value or such a string.
\<close>

datatype fpart = Txt string | Str pyval | Json pyval | StrExn exn

datatype outval = Val pyval | FString "fpart list"

type_synonym pydict = "(string \<times> outval) list"

text \<open>
  One entry of \<^verbatim>\<open>MetricData\<close>: metric name, value, unit and dimensions (the
  \<^verbatim>\<open>Timestamp\<close> entry, a reading of the clock, is left out).
\<close>

datatype metric_datum = Metric_datum string int string "(string \<times> pyval) list"

text \<open>
  What a handler does to the outside, in order: lines printed, and calls that change the
  fleet or send metrics. A call is recorded when it is made, also when it then raises.
\<close>

datatype effect =
    Print "fpart list"
  | Print_exc exn
  | Set_desired_capacity string int bool
  | Put_metric_data string "metric_datum list"

type_synonym 'a io = "effect list \<times> (exn + 'a)"

definition io_return :: "'a \<Rightarrow> 'a io" where
  "io_return x = ([], Inr x)"

definition io_raise :: "exn \<Rightarrow> 'a io" where
  "io_raise e = ([], Inl e)"

definition io_bind :: "'a io \<Rightarrow> ('a \<Rightarrow> 'b io) \<Rightarrow> 'b io" where
  "io_bind m f =
     (case m of
        (t, Inl e) \<Rightarrow> (t, Inl e)
      | (t, Inr x) \<Rightarrow> (case f x of (t', r) \<Rightarrow> (t @ t', r)))"

text \<open>\<^verbatim>\<open>try: m  except Exception as e: h(e)\<close>\<close>

definition io_try :: "'a io \<Rightarrow> (exn \<Rightarrow> 'a io) \<Rightarrow> 'a io" where
  "io_try m h =
     (case m of
        (t, Inl e) \<Rightarrow> (case h e of (t', r) \<Rightarrow> (t @ t', r))
      | (t, Inr x) \<Rightarrow> (t, Inr x))"

definition io_print :: "fpart list \<Rightarrow> unit io" where
  "io_print ps = ([Print ps], Inr ())"

definition io_lift :: "exn + 'a \<Rightarrow> 'a io" where
  "io_lift r = ([], r)"

text \<open>\<^verbatim>\<open>obj.get(key, default)\<close>: only a dictionary has the method.\<close>

definition py_get :: "pyval \<Rightarrow> string \<Rightarrow> pyval \<Rightarrow> pyval io" where
  "py_get obj k d =
     (case obj of
        PDict kvs \<Rightarrow> io_return (case map_of kvs k of Some v \<Rightarrow> v | None \<Rightarrow> d)
      | _ \<Rightarrow> io_raise (AttributeError obj ''get''))"

text \<open>\<^verbatim>\<open>v > n\<close> for an integer literal \<open>n\<close>: defined on integers and booleans only.\<close>

definition py_gt :: "pyval \<Rightarrow> int \<Rightarrow> bool io" where
  "py_gt v n =
     (case v of
        PInt i \<Rightarrow> io_return (i > n)
      | PBool b \<Rightarrow> io_return ((if b then 1 else 0) > n)
      | _ \<Rightarrow> io_raise (TypeError ''>'' [v, PInt n]))"

section \<open>The provider's answers\<close>

text \<open>
  The responses of boto3, as far as the handlers read them. Times are instants in
  microseconds (the resolution of \<^verbatim>\<open>datetime\<close>).
\<close>

record asg_instance =
  InstanceId :: string
  HealthStatus :: string

record asg =
  AutoScalingGroupName :: string
  DesiredCapacity :: int
  MinSize :: int
  MaxSize :: int
  Instances :: "asg_instance list"

record activity =
  StartTime :: int

text \<open>
  The outside world as the answers it gives: one field per client method, a function of
  the call's arguments; \<open>None\<close> is a call that returns, \<open>Some e\<close> one that raises.
  The workflow handler reads the scaling activities and the clock once in
  \<^verbatim>\<open>is_in_cooldown\<close> and once more in \<^verbatim>\<open>get_cooldown_remaining\<close>, and the two
  readings need not agree, so each has its own field. \<open>json_loads\<close> is the library's
  parser, and \<open>dumps_depth_limit\<close> the deepest nesting that \<^verbatim>\<open>json.dumps\<close>
  serialises before the interpreter's recursion limit stops it.
\<close>

record world =
  describe_auto_scaling_groups :: "string \<Rightarrow> exn + asg list"
  set_desired_capacity :: "string \<Rightarrow> int \<Rightarrow> bool \<Rightarrow> exn option"
  put_metric_data :: "string \<Rightarrow> metric_datum list \<Rightarrow> exn option"
  now_isoformat :: string
  gate_activities :: "string \<Rightarrow> exn + activity list"
  gate_now :: int
  remaining_activities :: "string \<Rightarrow> exn + activity list"
  remaining_now :: int
  json_loads :: "string \<Rightarrow> exn + pyval"
  dumps_depth_limit :: nat

text \<open>\<^verbatim>\<open>json.dumps(v)\<close> of a JSON value, as the piece of the f-string that holds it:
  a \<^verbatim>\<open>RecursionError\<close> when the value is nested deeper than the limit.\<close>

definition json_dumps :: "world \<Rightarrow> pyval \<Rightarrow> fpart io" where
  "json_dumps w v =
     (if depth v \<le> dumps_depth_limit w then io_return (Json v)
      else io_raise (RecursionError
             ''maximum recursion depth exceeded while encoding a JSON object''))"

definition call_set_desired_capacity :: "world \<Rightarrow> string \<Rightarrow> int \<Rightarrow> bool \<Rightarrow> unit io" where
  "call_set_desired_capacity w n c h =
     ([Set_desired_capacity n c h],
      case set_desired_capacity w n c h of None \<Rightarrow> Inr () | Some e \<Rightarrow> Inl e)"

definition call_put_metric_data :: "world \<Rightarrow> string \<Rightarrow> metric_datum list \<Rightarrow> unit io" where
  "call_put_metric_data w ns ms =
     ([Put_metric_data ns ms],
      case put_metric_data w ns ms of None \<Rightarrow> Inr () | Some e \<Rightarrow> Inl e)"

text \<open>The calls a handler made that set the fleet's capacity.\<close>

fun is_capacity_call :: "effect \<Rightarrow> bool" where
  "is_capacity_call (Set_desired_capacity n c h) = True"
| "is_capacity_call e = False"

definition capacity_calls :: "effect list \<Rightarrow> effect list" where
  "capacity_calls t = filter is_capacity_call t"

text \<open>The response record of a handler; the first handler's has no headers.\<close>

record response =
  statusCode :: int
  headers :: "(string \<times> string) list option"
  body :: pydict

section \<open>autoscale_handler.py (ai-incident-detection)\<close>

record config_aid =
  AUTO_SCALING_GROUP_NAME :: string
  MIN_CAPACITY :: int
  MAX_CAPACITY :: int
  SCALE_UP_INCREMENT :: int
  SCALE_DOWN_INCREMENT :: int

record asg_info =
  name :: string
  desired_capacity :: int
  min_size :: int
  max_size :: int
  instance_count :: int
  instances :: "asg_instance list"
  health_status :: "string list"

definition get_asg_info_aid :: "config_aid \<Rightarrow> world \<Rightarrow> asg_info io" where
  "get_asg_info_aid cfg w =
     io_bind (io_lift (describe_auto_scaling_groups w (AUTO_SCALING_GROUP_NAME cfg)))
       (\<lambda>groups.
          case groups of
            [] \<Rightarrow> io_raise (Exception (''Auto Scaling Group '' @ [CHR 0x27]
                     @ AUTO_SCALING_GROUP_NAME cfg @ [CHR 0x27] @ '' not found''))
          | g # _ \<Rightarrow>
              io_return
                \<lparr>name = AutoScalingGroupName g,
                 desired_capacity = DesiredCapacity g,
                 min_size = MinSize g,
                 max_size = MaxSize g,
                 instance_count = int (length (Instances g)),
                 instances = Instances g,
                 health_status = map HealthStatus (Instances g)\<rparr>)"

definition scale_up ::
  "config_aid \<Rightarrow> world \<Rightarrow> asg_info \<Rightarrow> pyval \<Rightarrow> pyval \<Rightarrow> pyval \<Rightarrow> pydict io" where
  "scale_up cfg w info alert_type severity ai_confidence =
     (let current_capacity = desired_capacity info in
      io_bind (if severity = PStr ''critical'' then io_return True else py_gt ai_confidence 90)
        (\<lambda>aggressive.
           let increment = (if aggressive then SCALE_UP_INCREMENT cfg * 2
                            else SCALE_UP_INCREMENT cfg);
               new_capacity = min (current_capacity + increment) (MAX_CAPACITY cfg)
           in
             if new_capacity = current_capacity then
               io_return
                 [(''action'', Val (PStr ''no_change'')),
                  (''message'', FString [Txt ''Already at maximum capacity ('',
                      Str (PInt (MAX_CAPACITY cfg)), Txt '')'']),
                  (''current_capacity'', Val (PInt current_capacity)),
                  (''max_capacity'', Val (PInt (MAX_CAPACITY cfg)))]
             else
               io_bind (io_print [Txt ''Scaling UP: '', Str (PInt current_capacity),
                          Txt '' -> '', Str (PInt new_capacity)])
                 (\<lambda>_. io_bind
                    (call_set_desired_capacity w (AUTO_SCALING_GROUP_NAME cfg) new_capacity False)
                    (\<lambda>_. io_return
                       [(''action'', Val (PStr ''scaled_up'')),
                        (''message'', FString [Txt ''Scaled from '', Str (PInt current_capacity),
                            Txt '' to '', Str (PInt new_capacity), Txt '' instances'']),
                        (''previous_capacity'', Val (PInt current_capacity)),
                        (''new_capacity'', Val (PInt new_capacity)),
                        (''increment'', Val (PInt increment)),
                        (''reason'', FString [Str severity, Txt '' '', Str alert_type,
                            Txt '' alert with '', Str ai_confidence, Txt ''% AI confidence'']),
                        (''estimated_ready_time'', Val (PStr ''2-5 minutes''))]))))"

definition scale_down :: "config_aid \<Rightarrow> world \<Rightarrow> asg_info \<Rightarrow> pydict io" where
  "scale_down cfg w info =
     (let current_capacity = desired_capacity info;
          new_capacity = max (current_capacity - SCALE_DOWN_INCREMENT cfg) (MIN_CAPACITY cfg)
      in
        if new_capacity = current_capacity then
          io_return
            [(''action'', Val (PStr ''no_change'')),
             (''message'', FString [Txt ''Already at minimum capacity ('',
                 Str (PInt (MIN_CAPACITY cfg)), Txt '')'']),
             (''current_capacity'', Val (PInt current_capacity)),
             (''min_capacity'', Val (PInt (MIN_CAPACITY cfg)))]
        else
          io_bind (io_print [Txt ''Scaling DOWN: '', Str (PInt current_capacity),
                     Txt '' -> '', Str (PInt new_capacity)])
            (\<lambda>_. io_bind
               (call_set_desired_capacity w (AUTO_SCALING_GROUP_NAME cfg) new_capacity True)
               (\<lambda>_. io_return
                  [(''action'', Val (PStr ''scaled_down'')),
                   (''message'', FString [Txt ''Scaled from '', Str (PInt current_capacity),
                       Txt '' to '', Str (PInt new_capacity), Txt '' instances'']),
                   (''previous_capacity'', Val (PInt current_capacity)),
                   (''new_capacity'', Val (PInt new_capacity)),
                   (''decrement'', Val (PInt (SCALE_DOWN_INCREMENT cfg))),
                   (''reason'', Val (PStr ''Load decreased, scaling down to save costs''))])))"

definition log_scaling_event ::
  "config_aid \<Rightarrow> world \<Rightarrow> pyval \<Rightarrow> pyval \<Rightarrow> pydict \<Rightarrow> unit io" where
  "log_scaling_event cfg w action alert_type result =
     io_try
       (call_put_metric_data w ''AIIncidentDetection''
          [Metric_datum ''ScalingAction'' 1 ''Count''
             [(''Action'', action),
              (''AlertType'', alert_type),
              (''ASG'', PStr (AUTO_SCALING_GROUP_NAME cfg))]])
       (\<lambda>e. io_print [Txt ''Failed to log to CloudWatch: '', StrExn e])"

text \<open>The \<^verbatim>\<open>try\<close> block of the handler, and the handler around it.\<close>

definition lambda_handler_aid_try :: "config_aid \<Rightarrow> world \<Rightarrow> pyval \<Rightarrow> response io" where
  "lambda_handler_aid_try cfg w event =
     io_bind (json_dumps w event) (\<lambda>dumped.
     io_bind (io_print [Txt ''Received event: '', dumped]) (\<lambda>_.
     io_bind (py_get event ''action'' (PStr ''analyze'')) (\<lambda>action.
     io_bind (py_get event ''alert_type'' (PStr ''unknown'')) (\<lambda>alert_type.
     io_bind (py_get event ''severity'' (PStr ''warning'')) (\<lambda>severity.
     io_bind (py_get event ''ai_confidence'' (PInt 0)) (\<lambda>ai_confidence.
     io_bind (get_asg_info_aid cfg w) (\<lambda>info.
     let current_capacity = desired_capacity info;
         current_instances = instance_count info
     in
     io_bind (io_print [Txt ''Current ASG state - Desired: '', Str (PInt current_capacity),
                Txt '', Running: '', Str (PInt current_instances)]) (\<lambda>_.
     io_bind
       (if action = PStr ''scale_up'' then scale_up cfg w info alert_type severity ai_confidence
        else if action = PStr ''scale_down'' then scale_down cfg w info
        else io_return
               [(''action'', Val (PStr ''no_change'')),
                (''message'', Val (PStr ''Analysis only, no scaling action taken'')),
                (''current_capacity'', Val (PInt current_capacity))]) (\<lambda>result.
     io_bind (log_scaling_event cfg w action alert_type result) (\<lambda>_.
     io_return
       \<lparr>statusCode = 200,
        headers = None,
        body = [(''success'', Val (PBool True)),
                (''timestamp'', Val (PStr (now_isoformat w))),
                (''asg_name'', Val (PStr (AUTO_SCALING_GROUP_NAME cfg)))] @ result\<rparr>))))))))))"

definition lambda_handler_aid_except :: "world \<Rightarrow> exn \<Rightarrow> response io" where
  "lambda_handler_aid_except w e =
     io_bind (io_print [Txt ''Error: '', StrExn e]) (\<lambda>_.
     io_return
       \<lparr>statusCode = 500,
        headers = None,
        body = [(''success'', Val (PBool False)),
                (''error'', FString [StrExn e]),
                (''timestamp'', Val (PStr (now_isoformat w)))]\<rparr>)"

definition lambda_handler_aid :: "config_aid \<Rightarrow> world \<Rightarrow> pyval \<Rightarrow> response io" where
  "lambda_handler_aid cfg w event =
     io_try (lambda_handler_aid_try cfg w event) (lambda_handler_aid_except w)"

section \<open>auto_scale_handler.py (n8n-workflow-files)\<close>

record config_wf =
  ASG_NAME :: string
  MIN_INSTANCES :: int
  MAX_INSTANCES :: int
  SCALE_UP_AMOUNT :: int
  COOLDOWN_PERIOD :: int
  REGION :: string

text \<open>\<^verbatim>\<open>k in obj\<close> for a string \<open>k\<close>: a key of a dictionary, an element of a list, a
  substring of a string; a \<^verbatim>\<open>TypeError\<close> on anything else.\<close>

fun is_substring :: "string \<Rightarrow> string \<Rightarrow> bool" where
  "is_substring xs [] = (xs = [])"
| "is_substring xs (y # ys) = (take (length xs) (y # ys) = xs \<or> is_substring xs ys)"

definition py_contains :: "string \<Rightarrow> pyval \<Rightarrow> bool io" where
  "py_contains k obj =
     (case obj of
        PDict kvs \<Rightarrow> io_return (map_of kvs k \<noteq> None)
      | PList xs \<Rightarrow> io_return (PStr k \<in> set xs)
      | PStr s \<Rightarrow> io_return (is_substring k s)
      | _ \<Rightarrow> io_raise (TypeError ''in'' [PStr k, obj]))"

text \<open>\<^verbatim>\<open>obj[k]\<close> for a string \<open>k\<close>: only a dictionary can be indexed by a string.\<close>

definition py_getitem :: "pyval \<Rightarrow> string \<Rightarrow> pyval io" where
  "py_getitem obj k =
     (case obj of
        PDict kvs \<Rightarrow> (case map_of kvs k of Some v \<Rightarrow> io_return v | None \<Rightarrow> io_raise (KeyError k))
      | _ \<Rightarrow> io_raise (TypeError ''[]'' [obj, PStr k]))"

definition parse_event :: "world \<Rightarrow> pyval \<Rightarrow> pyval io" where
  "parse_event w event =
     io_bind (py_contains ''body'' event) (\<lambda>has_body.
       if has_body then
         io_bind (py_getitem event ''body'') (\<lambda>b.
           case b of
             PStr s \<Rightarrow> io_lift (json_loads w s)
           | _ \<Rightarrow> io_return b)
       else io_return event)"

record asg_info_wf =
  desired_capacity_wf :: int
  min_size_wf :: int
  max_size_wf :: int
  current_instances_wf :: int
  instances_wf :: "asg_instance list"

definition get_asg_info_wf :: "world \<Rightarrow> string \<Rightarrow> asg_info_wf io" where
  "get_asg_info_wf w asg_name =
     io_bind (io_lift (describe_auto_scaling_groups w asg_name))
       (\<lambda>groups.
          case groups of
            [] \<Rightarrow> io_raise (ValueError (''ASG '' @ asg_name @ '' not found''))
          | g # _ \<Rightarrow>
              io_return
                \<lparr>desired_capacity_wf = DesiredCapacity g,
                 min_size_wf = MinSize g,
                 max_size_wf = MaxSize g,
                 current_instances_wf = int (length (Instances g)),
                 instances_wf = Instances g\<rparr>)"

text \<open>\<^verbatim>\<open>timedelta(seconds=n)\<close> in microseconds, and \<^verbatim>\<open>int(d.total_seconds())\<close> of a
  difference \<open>d\<close> of two instants: whole seconds, rounded towards zero.\<close>

definition timedelta_seconds :: "int \<Rightarrow> int" where
  "timedelta_seconds n = n * 1000000"

definition int_total_seconds :: "int \<Rightarrow> int" where
  "int_total_seconds d = (if 0 \<le> d then d div 1000000 else - ((- d) div 1000000))"

definition is_in_cooldown :: "config_wf \<Rightarrow> world \<Rightarrow> string \<Rightarrow> bool io" where
  "is_in_cooldown cfg w asg_name =
     io_try
       (io_bind (io_lift (gate_activities w asg_name)) (\<lambda>activities.
          case activities of
            last_activity # _ \<Rightarrow>
              (let activity_time = StartTime last_activity;
                   cooldown_end = activity_time + timedelta_seconds (COOLDOWN_PERIOD cfg)
               in io_return (gate_now w < cooldown_end))
          | [] \<Rightarrow> io_return False))
       (\<lambda>e. io_bind (io_print [Txt ''Error checking cooldown: '', StrExn e])
               (\<lambda>_. io_return False))"

definition get_cooldown_remaining :: "config_wf \<Rightarrow> world \<Rightarrow> string \<Rightarrow> int io" where
  "get_cooldown_remaining cfg w asg_name =
     io_try
       (io_bind (io_lift (remaining_activities w asg_name)) (\<lambda>activities.
          case activities of
            last_activity # _ \<Rightarrow>
              (let activity_time = StartTime last_activity;
                   cooldown_end = activity_time + timedelta_seconds (COOLDOWN_PERIOD cfg);
                   remaining = cooldown_end - remaining_now w
               in io_return (max 0 (int_total_seconds remaining)))
          | [] \<Rightarrow> io_return 0))
       (\<lambda>e. io_bind (io_print [Txt ''Error getting cooldown remaining: '', StrExn e])
               (\<lambda>_. io_return 0))"

definition send_scaling_metric :: "world \<Rightarrow> string \<Rightarrow> pyval \<Rightarrow> string \<Rightarrow> int \<Rightarrow> unit io" where
  "send_scaling_metric w asg_name alert_type action capacity_change =
     io_try
       (io_bind
          (call_put_metric_data w ''CustomMetrics/AutoScaling''
             [Metric_datum ''ScalingActivities'' 1 ''Count''
                [(''AutoScalingGroupName'', PStr asg_name),
                 (''AlertType'', alert_type),
                 (''Action'', PStr action)],
              Metric_datum ''CapacityChange'' capacity_change ''Count''
                [(''AutoScalingGroupName'', PStr asg_name),
                 (''Action'', PStr action)]])
          (\<lambda>_. io_print [Txt ''Sent scaling metrics to CloudWatch'']))
       (\<lambda>e. io_print [Txt ''Error sending metrics: '', StrExn e])"

text \<open>\<^verbatim>\<open>json.dumps(body, default=str)\<close> is kept as the dictionary it serialises.\<close>

definition create_response :: "int \<Rightarrow> pydict \<Rightarrow> response" where
  "create_response status_code b =
     \<lparr>statusCode = status_code,
      headers = Some [(''Content-Type'', ''application/json''),
                      (''Access-Control-Allow-Origin'', ''*'')],
      body = b\<rparr>"

definition handle_scale_up ::
  "config_wf \<Rightarrow> world \<Rightarrow> string \<Rightarrow> int \<Rightarrow> pyval \<Rightarrow> pyval \<Rightarrow> pyval \<Rightarrow> response io" where
  "handle_scale_up cfg w asg_name current_capacity alert_type metric_value ai_confidence =
     (let new_capacity = min (current_capacity + SCALE_UP_AMOUNT cfg) (MAX_INSTANCES cfg) in
      if new_capacity \<le> current_capacity then
        io_bind (io_print [Txt ''Already at maximum capacity ('',
                   Str (PInt (MAX_INSTANCES cfg)), Txt '' instances)'']) (\<lambda>_.
        io_bind (send_scaling_metric w asg_name alert_type ''scale_up_rejected'' 0) (\<lambda>_.
        io_return (create_response 200
          [(''message'', FString [Txt ''Already at maximum capacity ('',
               Str (PInt (MAX_INSTANCES cfg)), Txt '' instances)'']),
           (''current_capacity'', Val (PInt current_capacity)),
           (''max_capacity'', Val (PInt (MAX_INSTANCES cfg))),
           (''recommendation'', Val (PStr ''Consider increasing MAX_INSTANCES limit''))])))
      else
        io_bind (io_print [Txt ''Scaling up from '', Str (PInt current_capacity),
                   Txt '' to '', Str (PInt new_capacity)]) (\<lambda>_.
        io_bind (call_set_desired_capacity w asg_name new_capacity False) (\<lambda>_.
        io_bind (send_scaling_metric w asg_name alert_type ''scale_up''
                   (new_capacity - current_capacity)) (\<lambda>_.
        io_bind (io_print [Txt ''Successfully scaled up from '', Str (PInt current_capacity),
                   Txt '' to '', Str (PInt new_capacity), Txt '' instances'']) (\<lambda>_.
        io_return (create_response 200
          [(''success'', Val (PBool True)),
           (''message'', FString [Txt ''Successfully scaled up from '',
               Str (PInt current_capacity), Txt '' to '', Str (PInt new_capacity),
               Txt '' instances'']),
           (''previous_capacity'', Val (PInt current_capacity)),
           (''new_capacity'', Val (PInt new_capacity)),
           (''instances_added'', Val (PInt (new_capacity - current_capacity))),
           (''alert_type'', Val alert_type),
           (''metric_value'', Val metric_value),
           (''ai_confidence'', Val ai_confidence),
           (''timestamp'', Val (PStr (now_isoformat w))),
           (''estimated_ready_time'', Val (PStr ''3-5 minutes''))]))))))"

definition handle_scale_down ::
  "config_wf \<Rightarrow> world \<Rightarrow> string \<Rightarrow> int \<Rightarrow> pyval \<Rightarrow> response io" where
  "handle_scale_down cfg w asg_name current_capacity alert_type =
     (let new_capacity = max (current_capacity - 1) (MIN_INSTANCES cfg) in
      if new_capacity \<ge> current_capacity then
        io_bind (io_print [Txt ''Already at minimum capacity ('',
                   Str (PInt (MIN_INSTANCES cfg)), Txt '' instances)'']) (\<lambda>_.
        io_return (create_response 200
          [(''message'', FString [Txt ''Already at minimum capacity ('',
               Str (PInt (MIN_INSTANCES cfg)), Txt '' instances)'']),
           (''current_capacity'', Val (PInt current_capacity)),
           (''min_capacity'', Val (PInt (MIN_INSTANCES cfg)))]))
      else
        io_bind (io_print [Txt ''Scaling down from '', Str (PInt current_capacity),
                   Txt '' to '', Str (PInt new_capacity)]) (\<lambda>_.
        io_bind (call_set_desired_capacity w asg_name new_capacity True) (\<lambda>_.
        io_bind (send_scaling_metric w asg_name alert_type ''scale_down''
                   (current_capacity - new_capacity)) (\<lambda>_.
        io_bind (io_print [Txt ''Successfully scaled down from '', Str (PInt current_capacity),
                   Txt '' to '', Str (PInt new_capacity), Txt '' instances'']) (\<lambda>_.
        io_return (create_response 200
          [(''success'', Val (PBool True)),
           (''message'', FString [Txt ''Successfully scaled down from '',
               Str (PInt current_capacity), Txt '' to '', Str (PInt new_capacity),
               Txt '' instances'']),
           (''previous_capacity'', Val (PInt current_capacity)),
           (''new_capacity'', Val (PInt new_capacity)),
           (''instances_removed'', Val (PInt (current_capacity - new_capacity))),
           (''timestamp'', Val (PStr (now_isoformat w)))]))))))"

text \<open>What the handler does once the event's body is parsed and its fields are read:
  the cooldown gate, then the fleet's state, then the action.\<close>

definition lambda_handler_wf_act ::
  "config_wf \<Rightarrow> world \<Rightarrow> pyval \<Rightarrow> pyval \<Rightarrow> pyval \<Rightarrow> pyval \<Rightarrow> response io" where
  "lambda_handler_wf_act cfg w alert_type metric_value ai_confidence action =
     io_bind (is_in_cooldown cfg w (ASG_NAME cfg)) (\<lambda>in_cooldown.
       if in_cooldown then
         io_bind (get_cooldown_remaining cfg w (ASG_NAME cfg)) (\<lambda>remaining.
         io_return (create_response 200
           [(''message'', Val (PStr ''Scaling action skipped - in cooldown period'')),
            (''alert_type'', Val alert_type),
            (''cooldown_remaining'', Val (PInt remaining))]))
       else
         io_bind (get_asg_info_wf w (ASG_NAME cfg)) (\<lambda>info.
         let current_capacity = desired_capacity_wf info;
             current_instances = current_instances_wf info
         in
         io_bind (io_print [Txt ''Current ASG - Desired: '', Str (PInt current_capacity),
                    Txt '', Running: '', Str (PInt current_instances)]) (\<lambda>_.
         if action = PStr ''scale_up'' then
           handle_scale_up cfg w (ASG_NAME cfg) current_capacity alert_type metric_value
             ai_confidence
         else if action = PStr ''scale_down'' then
           handle_scale_down cfg w (ASG_NAME cfg) current_capacity alert_type
         else
           io_return (create_response 400
             [(''error'', FString [Txt ''Unknown action: '', Str action])]))))"

definition lambda_handler_wf_try :: "config_wf \<Rightarrow> world \<Rightarrow> pyval \<Rightarrow> response io" where
  "lambda_handler_wf_try cfg w event =
     io_bind (parse_event w event) (\<lambda>b.
     io_bind (py_get b ''alert_type'' (PStr ''unknown'')) (\<lambda>alert_type.
     io_bind (py_get b ''instance'' (PStr ''unknown'')) (\<lambda>inst.
     io_bind (py_get b ''metric_value'' (PInt 0)) (\<lambda>metric_value.
     io_bind (py_get b ''ai_confidence'' (PStr ''unknown'')) (\<lambda>ai_confidence.
     io_bind (py_get b ''action'' (PStr ''scale_up'')) (\<lambda>action.
     io_bind (io_print [Txt ''Processing '', Str action, Txt '' request for '',
                Str alert_type, Txt '' alert'']) (\<lambda>_.
     io_bind (io_print [Txt ''Instance: '', Str inst, Txt '', Metric: '', Str metric_value,
                Txt '', AI Confidence: '', Str ai_confidence]) (\<lambda>_.
     lambda_handler_wf_act cfg w alert_type metric_value ai_confidence action))))))))"

definition lambda_handler_wf_except :: "exn \<Rightarrow> response io" where
  "lambda_handler_wf_except e =
     io_bind (io_print [Txt ''Error in lambda_handler: '', StrExn e]) (\<lambda>_.
     io_bind ([Print_exc e], Inr ()) (\<lambda>_.
     io_return (create_response 500
       [(''error'', Val (PStr ''Internal server error'')),
        (''message'', FString [StrExn e]),
        (''alert_sent_to_ops'', Val (PBool True))])))"

text \<open>The first \<^verbatim>\<open>print\<close> of this handler, with its \<^verbatim>\<open>json.dumps(event)\<close>,
  stands before its \<^verbatim>\<open>try\<close>: what it raises leaves the handler.\<close>

definition lambda_handler_wf :: "config_wf \<Rightarrow> world \<Rightarrow> pyval \<Rightarrow> response io" where
  "lambda_handler_wf cfg w event =
     io_bind (json_dumps w event) (\<lambda>dumped.
     io_bind (io_print [Txt ''Received event: '', dumped]) (\<lambda>_.
     io_try (lambda_handler_wf_try cfg w event) lambda_handler_wf_except))"

section \<open>Configurations and worlds to run the handlers on\<close>

text \<open>The defaults of the two modules' \<^verbatim>\<open>os.environ.get\<close> calls.\<close>

definition default_config_aid :: config_aid where
  "default_config_aid =
     \<lparr>AUTO_SCALING_GROUP_NAME = ''production-asg'',
      MIN_CAPACITY = 2,
      MAX_CAPACITY = 10,
      SCALE_UP_INCREMENT = 2,
      SCALE_DOWN_INCREMENT = 1\<rparr>"

definition default_config_wf :: config_wf where
  "default_config_wf =
     \<lparr>ASG_NAME = ''production-asg'',
      MIN_INSTANCES = 2,
      MAX_INSTANCES = 10,
      SCALE_UP_AMOUNT = 2,
      COOLDOWN_PERIOD = 300,
      REGION = ''us-east-1''\<rparr>"

text \<open>
  A world in which every call succeeds: the group has \<open>cap\<close> desired instances and no
  instance listed, the last scaling activity started at \<open>T\<close>, both readings of the
  clock give \<open>now\<close>, and \<^verbatim>\<open>json.dumps\<close> serialises 1000 levels. \<open>no_history\<close> is the same world with no scaling activity on
  record, \<open>metrics_down\<close> makes every \<^verbatim>\<open>put_metric_data\<close> raise, and
  \<open>history_down\<close> every \<^verbatim>\<open>describe_scaling_activities\<close>.
\<close>

definition calm_world :: "int \<Rightarrow> int \<Rightarrow> int \<Rightarrow> world" where
  "calm_world cap T now =
     \<lparr>describe_auto_scaling_groups =
        (\<lambda>n. Inr [\<lparr>AutoScalingGroupName = n, DesiredCapacity = cap, MinSize = 2,
                    MaxSize = 10, Instances = []\<rparr>]),
      set_desired_capacity = (\<lambda>n c h. None),
      put_metric_data = (\<lambda>ns ms. None),
      now_isoformat = ''2025-01-01T00:00:00'',
      gate_activities = (\<lambda>n. Inr [\<lparr>StartTime = T\<rparr>]),
      gate_now = now,
      remaining_activities = (\<lambda>n. Inr [\<lparr>StartTime = T\<rparr>]),
      remaining_now = now,
      json_loads = (\<lambda>s. Inl (JSONDecodeError s)),
      dumps_depth_limit = 1000\<rparr>"

definition no_history :: "world \<Rightarrow> world" where
  "no_history w = w\<lparr>gate_activities := (\<lambda>n. Inr []), remaining_activities := (\<lambda>n. Inr [])\<rparr>"

definition metrics_down :: "world \<Rightarrow> world" where
  "metrics_down w = w\<lparr>put_metric_data := (\<lambda>ns ms. Some (ClientError ''Throttling''))\<rparr>"

definition history_down :: "world \<Rightarrow> world" where
  "history_down w =
     w\<lparr>gate_activities := (\<lambda>n. Inl (ClientError ''Throttling'')),
       remaining_activities := (\<lambda>n. Inl (ClientError ''Throttling''))\<rparr>"

text \<open>What \<^verbatim>\<open>get_asg_info\<close> of the first handler returns for a group of \<open>cap\<close>
  desired instances in a calm world.\<close>

definition info_of :: "int \<Rightarrow> asg_info" where
  "info_of cap =
     \<lparr>name = ''production-asg'', desired_capacity = cap, min_size = 2, max_size = 10,
      instance_count = 0, instances = [], health_status = []\<rparr>"

text \<open>
  Two runs are the same to the caller and to the fleet when they return the same result
  (or raise the same exception) and make the same capacity calls; what they print and
  what they send as metrics may differ.
\<close>

definition io_same :: "'a io \<Rightarrow> 'a io \<Rightarrow> bool" where
  "io_same m m' \<longleftrightarrow> snd m = snd m' \<and> capacity_calls (fst m) = capacity_calls (fst m')"

text \<open>A list nested \<open>n\<close> levels deep inside a list.\<close>

fun nested :: "nat \<Rightarrow> pyval" where
  "nested 0 = PList []"
| "nested (Suc n) = PList [nested n]"

section \<open>Laws of the effect monad\<close>

lemma io_bind_return [simp]: "io_bind (io_return x) f = f x"
  by (simp add: io_bind_def io_return_def split: prod.splits)

lemma io_bind_raise [simp]: "io_bind (io_raise e) f = io_raise e"
  by (simp add: io_bind_def io_raise_def)

lemma io_bind_print [simp]: "io_bind (io_print ps) f = (Print ps # fst (f ()), snd (f ()))"
  by (simp add: io_bind_def io_print_def split: prod.splits)

lemma io_try_return [simp]: "io_try (io_return x) h = io_return x"
  by (simp add: io_try_def io_return_def)

lemma io_try_raise [simp]: "io_try (io_raise e) h = h e"
  by (simp add: io_try_def io_raise_def split: prod.splits)

lemma fst_io_return [simp]: "fst (io_return x) = []"
  by (simp add: io_return_def)

lemma snd_io_return [simp]: "snd (io_return x) = Inr x"
  by (simp add: io_return_def)

lemma fst_io_raise [simp]: "fst (io_raise e) = []"
  by (simp add: io_raise_def)

lemma snd_io_raise [simp]: "snd (io_raise e) = Inl e"
  by (simp add: io_raise_def)

lemma fst_io_bind:
  "fst (io_bind m f) = (case snd m of Inl e \<Rightarrow> fst m | Inr x \<Rightarrow> fst m @ fst (f x))"
  by (simp add: io_bind_def split: prod.splits sum.splits)

lemma snd_io_bind:
  "snd (io_bind m f) = (case snd m of Inl e \<Rightarrow> Inl e | Inr x \<Rightarrow> snd (f x))"
  by (simp add: io_bind_def split: prod.splits sum.splits)

lemma fst_io_try:
  "fst (io_try m h) = (case snd m of Inl e \<Rightarrow> fst m @ fst (h e) | Inr x \<Rightarrow> fst m)"
  by (simp add: io_try_def split: prod.splits sum.splits)

lemma snd_io_try:
  "snd (io_try m h) = (case snd m of Inl e \<Rightarrow> snd (h e) | Inr x \<Rightarrow> Inr x)"
  by (simp add: io_try_def split: prod.splits sum.splits)

lemma snd_call_set [simp]:
  "snd (call_set_desired_capacity w n c h) =
     (case set_desired_capacity w n c h of None \<Rightarrow> Inr () | Some e \<Rightarrow> Inl e)"
  by (simp add: call_set_desired_capacity_def)

lemma fst_call_set [simp]:
  "fst (call_set_desired_capacity w n c h) = [Set_desired_capacity n c h]"
  by (simp add: call_set_desired_capacity_def)

lemma json_dumps_ok:
  "depth v \<le> dumps_depth_limit w \<Longrightarrow> json_dumps w v = io_return (Json v)"
  by (simp add: json_dumps_def)

lemma json_dumps_deep:
  "dumps_depth_limit w < depth v \<Longrightarrow>
   json_dumps w v =
     io_raise (RecursionError ''maximum recursion depth exceeded while encoding a JSON object'')"
  by (simp add: json_dumps_def)

lemma depth_nested: "depth (nested n) = Suc n"
  by (induction n) simp_all

lemma dumps_depth_limit_calm [simp]:
  "dumps_depth_limit (calm_world cap T now) = 1000"
  "dumps_depth_limit (no_history w) = dumps_depth_limit w"
  "dumps_depth_limit (metrics_down w) = dumps_depth_limit w"
  "dumps_depth_limit (history_down w) = dumps_depth_limit w"
  by (simp_all add: calm_world_def no_history_def metrics_down_def history_down_def)

lemma capacity_calls_simps [simp]:
  "capacity_calls [] = []"
  "capacity_calls (Print ps # t) = capacity_calls t"
  "capacity_calls (Print_exc e # t) = capacity_calls t"
  "capacity_calls (Put_metric_data ns ms # t) = capacity_calls t"
  "capacity_calls (Set_desired_capacity n c h # t) = Set_desired_capacity n c h # capacity_calls t"
  "capacity_calls (t @ u) = capacity_calls t @ capacity_calls u"
  by (simp_all add: capacity_calls_def)

section \<open>What each function of autoscale_handler.py returns and calls\<close>

lemma get_asg_info_aid_ok:
  "describe_auto_scaling_groups w (AUTO_SCALING_GROUP_NAME cfg) = Inr (g # gs) \<Longrightarrow>
   get_asg_info_aid cfg w =
     io_return
       \<lparr>name = AutoScalingGroupName g,
        desired_capacity = DesiredCapacity g,
        min_size = MinSize g,
        max_size = MaxSize g,
        instance_count = int (length (Instances g)),
        instances = Instances g,
        health_status = map HealthStatus (Instances g)\<rparr>"
  by (simp add: get_asg_info_aid_def io_lift_def io_bind_def io_return_def)

lemma snd_log_scaling_event [simp]: "snd (log_scaling_event cfg w a t r) = Inr ()"
  by (simp add: log_scaling_event_def snd_io_try call_put_metric_data_def io_print_def
      split: option.splits)

lemma calls_log_scaling_event [simp]:
  "capacity_calls (fst (log_scaling_event cfg w a t r)) = []"
  by (simp add: log_scaling_event_def fst_io_try call_put_metric_data_def io_print_def
      split: option.splits)

lemma calls_scale_up:
  "capacity_calls (fst (scale_up cfg w info alert_type severity (PInt c))) =
     (let inc = (if severity = PStr ''critical'' \<or> c > 90 then SCALE_UP_INCREMENT cfg * 2
                 else SCALE_UP_INCREMENT cfg);
          new = min (desired_capacity info + inc) (MAX_CAPACITY cfg)
      in if new = desired_capacity info then []
         else [Set_desired_capacity (AUTO_SCALING_GROUP_NAME cfg) new False])"
  by (simp add: scale_up_def py_gt_def Let_def fst_io_bind split: sum.splits option.splits)

lemma calls_scale_down:
  "capacity_calls (fst (scale_down cfg w info)) =
     (let new = max (desired_capacity info - SCALE_DOWN_INCREMENT cfg) (MIN_CAPACITY cfg)
      in if new = desired_capacity info then []
         else [Set_desired_capacity (AUTO_SCALING_GROUP_NAME cfg) new True])"
  by (simp add: scale_down_def Let_def fst_io_bind split: sum.splits option.splits)

section \<open>What each function of auto_scale_handler.py returns and calls\<close>

lemma snd_send_scaling_metric [simp]: "snd (send_scaling_metric w n t a c) = Inr ()"
  by (simp add: send_scaling_metric_def snd_io_try snd_io_bind call_put_metric_data_def
      io_print_def split: option.splits)

lemma calls_send_scaling_metric [simp]:
  "capacity_calls (fst (send_scaling_metric w n t a c)) = []"
  by (simp add: send_scaling_metric_def fst_io_try fst_io_bind snd_io_bind
      call_put_metric_data_def io_print_def split: option.splits)

lemma snd_is_in_cooldown:
  "snd (is_in_cooldown cfg w n) =
     Inr (case gate_activities w n of
            Inr (a # _) \<Rightarrow> gate_now w < StartTime a + timedelta_seconds (COOLDOWN_PERIOD cfg)
          | Inr [] \<Rightarrow> False
          | Inl e \<Rightarrow> False)"
  by (simp add: is_in_cooldown_def snd_io_try snd_io_bind io_lift_def Let_def
      split: sum.splits list.splits)

lemma calls_is_in_cooldown [simp]: "capacity_calls (fst (is_in_cooldown cfg w n)) = []"
  by (simp add: is_in_cooldown_def fst_io_try fst_io_bind snd_io_bind io_lift_def Let_def
      split: sum.splits list.splits)

lemma snd_get_cooldown_remaining:
  "snd (get_cooldown_remaining cfg w n) =
     Inr (case remaining_activities w n of
            Inr (a # _) \<Rightarrow>
              max 0 (int_total_seconds
                (StartTime a + timedelta_seconds (COOLDOWN_PERIOD cfg) - remaining_now w))
          | Inr [] \<Rightarrow> 0
          | Inl e \<Rightarrow> 0)"
  by (simp add: get_cooldown_remaining_def snd_io_try snd_io_bind io_lift_def Let_def
      split: sum.splits list.splits)

lemma calls_get_cooldown_remaining [simp]:
  "capacity_calls (fst (get_cooldown_remaining cfg w n)) = []"
  by (simp add: get_cooldown_remaining_def fst_io_try fst_io_bind snd_io_bind io_lift_def
      Let_def split: sum.splits list.splits)

lemma parse_event_direct:
  "map_of kvs ''body'' = None \<Longrightarrow> parse_event w (PDict kvs) = io_return (PDict kvs)"
  by (simp add: parse_event_def py_contains_def)

lemma get_asg_info_wf_ok:
  "describe_auto_scaling_groups w n = Inr (g # gs) \<Longrightarrow>
   get_asg_info_wf w n =
     io_return
       \<lparr>desired_capacity_wf = DesiredCapacity g,
        min_size_wf = MinSize g,
        max_size_wf = MaxSize g,
        current_instances_wf = int (length (Instances g)),
        instances_wf = Instances g\<rparr>"
  by (simp add: get_asg_info_wf_def io_lift_def io_bind_def io_return_def)

lemma calls_get_asg_info_wf [simp]: "capacity_calls (fst (get_asg_info_wf w n)) = []"
  by (simp add: get_asg_info_wf_def fst_io_bind io_lift_def split: sum.splits list.splits)

lemma calls_handle_scale_up:
  "capacity_calls (fst (handle_scale_up cfg w n cur alert_type mv conf)) =
     (let new = min (cur + SCALE_UP_AMOUNT cfg) (MAX_INSTANCES cfg)
      in if new \<le> cur then [] else [Set_desired_capacity n new False])"
  by (simp add: handle_scale_up_def Let_def fst_io_bind snd_io_bind split: option.splits)

lemma calls_handle_scale_down:
  "capacity_calls (fst (handle_scale_down cfg w n cur alert_type)) =
     (let new = max (cur - 1) (MIN_INSTANCES cfg)
      in if new \<ge> cur then [] else [Set_desired_capacity n new True])"
  by (simp add: handle_scale_down_def Let_def fst_io_bind snd_io_bind split: option.splits)



lemma snd_wf_except [simp]:
  "snd (lambda_handler_wf_except e) =
     Inr (create_response 500
       [(''error'', Val (PStr ''Internal server error'')),
        (''message'', FString [StrExn e]),
        (''alert_sent_to_ops'', Val (PBool True))])"
  by (simp add: lambda_handler_wf_except_def snd_io_bind)

lemma calls_wf_except [simp]: "capacity_calls (fst (lambda_handler_wf_except e)) = []"
  by (simp add: lambda_handler_wf_except_def fst_io_bind)

lemma snd_lambda_handler_wf:
  "depth event \<le> dumps_depth_limit w \<Longrightarrow>
   snd (lambda_handler_wf cfg w event) =
     (case snd (lambda_handler_wf_try cfg w event) of
        Inr r \<Rightarrow> Inr r
      | Inl e \<Rightarrow> Inr (create_response 500
          [(''error'', Val (PStr ''Internal server error'')),
           (''message'', FString [StrExn e]),
           (''alert_sent_to_ops'', Val (PBool True))]))"
  by (simp add: lambda_handler_wf_def json_dumps_ok snd_io_try split: sum.splits)

lemma calls_lambda_handler_wf:
  "depth event \<le> dumps_depth_limit w \<Longrightarrow>
   capacity_calls (fst (lambda_handler_wf cfg w event)) =
   capacity_calls (fst (lambda_handler_wf_try cfg w event))"
  by (simp add: lambda_handler_wf_def json_dumps_ok fst_io_try split: sum.splits)

lemma lambda_handler_wf_deep:
  "dumps_depth_limit w < depth event \<Longrightarrow>
   lambda_handler_wf cfg w event =
     io_raise (RecursionError ''maximum recursion depth exceeded while encoding a JSON object'')"
  by (simp add: lambda_handler_wf_def json_dumps_deep)

lemma fst_parse_event [simp]: "fst (parse_event w event) = []"
  by (cases event)
    (simp_all add: parse_event_def py_contains_def py_getitem_def io_lift_def fst_io_bind
      split: option.splits pyval.splits)




lemma snd_wf_try_parsed:
  "snd (parse_event w event) = Inr (PDict kvs) \<Longrightarrow>
   snd (lambda_handler_wf_try cfg w event) =
     snd (lambda_handler_wf_act cfg w
       (case map_of kvs ''alert_type'' of Some v \<Rightarrow> v | None \<Rightarrow> PStr ''unknown'')
       (case map_of kvs ''metric_value'' of Some v \<Rightarrow> v | None \<Rightarrow> PInt 0)
       (case map_of kvs ''ai_confidence'' of Some v \<Rightarrow> v | None \<Rightarrow> PStr ''unknown'')
       (case map_of kvs ''action'' of Some v \<Rightarrow> v | None \<Rightarrow> PStr ''scale_up''))"
  by (simp add: lambda_handler_wf_try_def py_get_def snd_io_bind)

lemma calls_wf_try_parsed:
  "snd (parse_event w event) = Inr (PDict kvs) \<Longrightarrow>
   capacity_calls (fst (lambda_handler_wf_try cfg w event)) =
     capacity_calls (fst (lambda_handler_wf_act cfg w
       (case map_of kvs ''alert_type'' of Some v \<Rightarrow> v | None \<Rightarrow> PStr ''unknown'')
       (case map_of kvs ''metric_value'' of Some v \<Rightarrow> v | None \<Rightarrow> PInt 0)
       (case map_of kvs ''ai_confidence'' of Some v \<Rightarrow> v | None \<Rightarrow> PStr ''unknown'')
       (case map_of kvs ''action'' of Some v \<Rightarrow> v | None \<Rightarrow> PStr ''scale_up'')))"
  by (simp add: lambda_handler_wf_try_def py_get_def fst_io_bind)

lemma snd_wf_try_direct:
  "map_of kvs ''body'' = None \<Longrightarrow>
   snd (lambda_handler_wf_try cfg w (PDict kvs)) =
     snd (lambda_handler_wf_act cfg w
       (case map_of kvs ''alert_type'' of Some v \<Rightarrow> v | None \<Rightarrow> PStr ''unknown'')
       (case map_of kvs ''metric_value'' of Some v \<Rightarrow> v | None \<Rightarrow> PInt 0)
       (case map_of kvs ''ai_confidence'' of Some v \<Rightarrow> v | None \<Rightarrow> PStr ''unknown'')
       (case map_of kvs ''action'' of Some v \<Rightarrow> v | None \<Rightarrow> PStr ''scale_up''))"
  by (simp add: lambda_handler_wf_try_def parse_event_direct py_get_def)

lemma calls_wf_try_direct:
  "map_of kvs ''body'' = None \<Longrightarrow>
   capacity_calls (fst (lambda_handler_wf_try cfg w (PDict kvs))) =
     capacity_calls (fst (lambda_handler_wf_act cfg w
       (case map_of kvs ''alert_type'' of Some v \<Rightarrow> v | None \<Rightarrow> PStr ''unknown'')
       (case map_of kvs ''metric_value'' of Some v \<Rightarrow> v | None \<Rightarrow> PInt 0)
       (case map_of kvs ''ai_confidence'' of Some v \<Rightarrow> v | None \<Rightarrow> PStr ''unknown'')
       (case map_of kvs ''action'' of Some v \<Rightarrow> v | None \<Rightarrow> PStr ''scale_up'')))"
  by (simp add: lambda_handler_wf_try_def parse_event_direct py_get_def)

section \<open>Closed forms of the planners\<close>

lemma snd_scale_up:
  "snd (scale_up cfg w info alert_type severity (PInt c)) =
     (let cur = desired_capacity info;
          inc = (if severity = PStr ''critical'' \<or> c > 90 then SCALE_UP_INCREMENT cfg * 2
                 else SCALE_UP_INCREMENT cfg);
          new = min (cur + inc) (MAX_CAPACITY cfg)
      in if new = cur then
           Inr [(''action'', Val (PStr ''no_change'')),
                (''message'', FString [Txt ''Already at maximum capacity ('',
                    Str (PInt (MAX_CAPACITY cfg)), Txt '')'']),
                (''current_capacity'', Val (PInt cur)),
                (''max_capacity'', Val (PInt (MAX_CAPACITY cfg)))]
         else
           (case set_desired_capacity w (AUTO_SCALING_GROUP_NAME cfg) new False of
              Some e \<Rightarrow> Inl e
            | None \<Rightarrow>
                Inr [(''action'', Val (PStr ''scaled_up'')),
                     (''message'', FString [Txt ''Scaled from '', Str (PInt cur),
                         Txt '' to '', Str (PInt new), Txt '' instances'']),
                     (''previous_capacity'', Val (PInt cur)),
                     (''new_capacity'', Val (PInt new)),
                     (''increment'', Val (PInt inc)),
                     (''reason'', FString [Str severity, Txt '' '', Str alert_type,
                         Txt '' alert with '', Str (PInt c), Txt ''% AI confidence'']),
                     (''estimated_ready_time'', Val (PStr ''2-5 minutes''))]))"
  by (simp add: scale_up_def py_gt_def Let_def snd_io_bind split: option.splits)

lemma snd_scale_down:
  "snd (scale_down cfg w info) =
     (let cur = desired_capacity info;
          new = max (cur - SCALE_DOWN_INCREMENT cfg) (MIN_CAPACITY cfg)
      in if new = cur then
           Inr [(''action'', Val (PStr ''no_change'')),
                (''message'', FString [Txt ''Already at minimum capacity ('',
                    Str (PInt (MIN_CAPACITY cfg)), Txt '')'']),
                (''current_capacity'', Val (PInt cur)),
                (''min_capacity'', Val (PInt (MIN_CAPACITY cfg)))]
         else
           (case set_desired_capacity w (AUTO_SCALING_GROUP_NAME cfg) new True of
              Some e \<Rightarrow> Inl e
            | None \<Rightarrow>
                Inr [(''action'', Val (PStr ''scaled_down'')),
                     (''message'', FString [Txt ''Scaled from '', Str (PInt cur),
                         Txt '' to '', Str (PInt new), Txt '' instances'']),
                     (''previous_capacity'', Val (PInt cur)),
                     (''new_capacity'', Val (PInt new)),
                     (''decrement'', Val (PInt (SCALE_DOWN_INCREMENT cfg))),
                     (''reason'', Val (PStr ''Load decreased, scaling down to save costs''))]))"
  by (simp add: scale_down_def Let_def snd_io_bind split: option.splits)

lemma snd_handle_scale_up:
  "snd (handle_scale_up cfg w n cur alert_type mv conf) =
     (let new = min (cur + SCALE_UP_AMOUNT cfg) (MAX_INSTANCES cfg)
      in if new \<le> cur then
           Inr (create_response 200
             [(''message'', FString [Txt ''Already at maximum capacity ('',
                  Str (PInt (MAX_INSTANCES cfg)), Txt '' instances)'']),
              (''current_capacity'', Val (PInt cur)),
              (''max_capacity'', Val (PInt (MAX_INSTANCES cfg))),
              (''recommendation'', Val (PStr ''Consider increasing MAX_INSTANCES limit''))])
         else
           (case set_desired_capacity w n new False of
              Some e \<Rightarrow> Inl e
            | None \<Rightarrow>
                Inr (create_response 200
                  [(''success'', Val (PBool True)),
                   (''message'', FString [Txt ''Successfully scaled up from '',
                       Str (PInt cur), Txt '' to '', Str (PInt new), Txt '' instances'']),
                   (''previous_capacity'', Val (PInt cur)),
                   (''new_capacity'', Val (PInt new)),
                   (''instances_added'', Val (PInt (new - cur))),
                   (''alert_type'', Val alert_type),
                   (''metric_value'', Val mv),
                   (''ai_confidence'', Val conf),
                   (''timestamp'', Val (PStr (now_isoformat w))),
                   (''estimated_ready_time'', Val (PStr ''3-5 minutes''))])))"
  by (simp add: handle_scale_up_def Let_def snd_io_bind split: option.splits)

lemma snd_handle_scale_down:
  "snd (handle_scale_down cfg w n cur alert_type) =
     (let new = max (cur - 1) (MIN_INSTANCES cfg)
      in if new \<ge> cur then
           Inr (create_response 200
             [(''message'', FString [Txt ''Already at minimum capacity ('',
                  Str (PInt (MIN_INSTANCES cfg)), Txt '' instances)'']),
              (''current_capacity'', Val (PInt cur)),
              (''min_capacity'', Val (PInt (MIN_INSTANCES cfg)))])
         else
           (case set_desired_capacity w n new True of
              Some e \<Rightarrow> Inl e
            | None \<Rightarrow>
                Inr (create_response 200
                  [(''success'', Val (PBool True)),
                   (''message'', FString [Txt ''Successfully scaled down from '',
                       Str (PInt cur), Txt '' to '', Str (PInt new), Txt '' instances'']),
                   (''previous_capacity'', Val (PInt cur)),
                   (''new_capacity'', Val (PInt new)),
                   (''instances_removed'', Val (PInt (cur - new))),
                   (''timestamp'', Val (PStr (now_isoformat w)))])))"
  by (simp add: handle_scale_down_def Let_def snd_io_bind split: option.splits)

lemma int_total_seconds_whole [simp]: "int_total_seconds (timedelta_seconds k) = k"
proof -
  have "- (k * 1000000) = (- k) * 1000000" by simp
  then have "(- (k * 1000000)) div 1000000 = - k" by (metis nonzero_mult_div_cancel_right zero_neq_numeral)
  then show ?thesis by (simp add: int_total_seconds_def timedelta_seconds_def)
qed


lemma mem_capacity_calls:
  "Set_desired_capacity n c h \<in> set t \<Longrightarrow> Set_desired_capacity n c h \<in> set (capacity_calls t)"
  by (simp add: capacity_calls_def)

lemma calls_scale_up_any:
  "capacity_calls (fst (scale_up cfg w info alert_type severity conf)) =
     (case snd (if severity = PStr ''critical'' then io_return True else py_gt conf 90) of
        Inl e \<Rightarrow> []
      | Inr aggressive \<Rightarrow>
          (let inc = (if aggressive then SCALE_UP_INCREMENT cfg * 2 else SCALE_UP_INCREMENT cfg);
               new = min (desired_capacity info + inc) (MAX_CAPACITY cfg)
           in if new = desired_capacity info then []
              else [Set_desired_capacity (AUTO_SCALING_GROUP_NAME cfg) new False]))"
proof (cases "severity = PStr ''critical''")
  case True
  then show ?thesis by (simp add: scale_up_def Let_def fst_io_bind split: option.splits)
next
  case False
  then show ?thesis
    by (cases conf) (simp_all add: scale_up_def py_gt_def Let_def fst_io_bind split: option.splits)
qed

lemma snd_scale_up_any:
  "snd (scale_up cfg w info alert_type severity conf) =
     (case snd (if severity = PStr ''critical'' then io_return True else py_gt conf 90) of
        Inl e \<Rightarrow> Inl e
      | Inr aggressive \<Rightarrow>
     (let cur = desired_capacity info;
          inc = (if aggressive then SCALE_UP_INCREMENT cfg * 2 else SCALE_UP_INCREMENT cfg);
          new = min (cur + inc) (MAX_CAPACITY cfg)
      in if new = cur then
           Inr [(''action'', Val (PStr ''no_change'')),
                (''message'', FString [Txt ''Already at maximum capacity ('',
                    Str (PInt (MAX_CAPACITY cfg)), Txt '')'']),
                (''current_capacity'', Val (PInt cur)),
                (''max_capacity'', Val (PInt (MAX_CAPACITY cfg)))]
         else
           (case set_desired_capacity w (AUTO_SCALING_GROUP_NAME cfg) new False of
              Some e \<Rightarrow> Inl e
            | None \<Rightarrow>
                Inr [(''action'', Val (PStr ''scaled_up'')),
                     (''message'', FString [Txt ''Scaled from '', Str (PInt cur),
                         Txt '' to '', Str (PInt new), Txt '' instances'']),
                     (''previous_capacity'', Val (PInt cur)),
                     (''new_capacity'', Val (PInt new)),
                     (''increment'', Val (PInt inc)),
                     (''reason'', FString [Str severity, Txt '' '', Str alert_type,
                         Txt '' alert with '', Str conf, Txt ''% AI confidence'']),
                     (''estimated_ready_time'', Val (PStr ''2-5 minutes''))])))"
proof (cases "severity = PStr ''critical''")
  case True
  then show ?thesis by (simp add: scale_up_def Let_def snd_io_bind split: option.splits)
next
  case False
  then show ?thesis
    by (cases conf) (simp_all add: scale_up_def py_gt_def Let_def snd_io_bind split: option.splits)
qed

lemma snd_aid_except [simp]:
  "snd (lambda_handler_aid_except w e) =
     Inr \<lparr>statusCode = 500, headers = None,
          body = [(''success'', Val (PBool False)),
                  (''error'', FString [StrExn e]),
                  (''timestamp'', Val (PStr (now_isoformat w)))]\<rparr>"
  by (simp add: lambda_handler_aid_except_def)

lemma calls_aid_except [simp]: "capacity_calls (fst (lambda_handler_aid_except w e)) = []"
  by (simp add: lambda_handler_aid_except_def)

lemma snd_lambda_handler_aid:
  "snd (lambda_handler_aid cfg w event) =
     (case snd (lambda_handler_aid_try cfg w event) of
        Inr r \<Rightarrow> Inr r
      | Inl e \<Rightarrow>
          Inr \<lparr>statusCode = 500, headers = None,
               body = [(''success'', Val (PBool False)),
                       (''error'', FString [StrExn e]),
                       (''timestamp'', Val (PStr (now_isoformat w)))]\<rparr>)"
  by (simp add: lambda_handler_aid_def snd_io_try split: sum.splits)

lemma calls_lambda_handler_aid:
  "capacity_calls (fst (lambda_handler_aid cfg w event)) =
   capacity_calls (fst (lambda_handler_aid_try cfg w event))"
  by (simp add: lambda_handler_aid_def fst_io_try split: sum.splits)

lemma lambda_handler_aid_try_deep:
  "dumps_depth_limit w < depth event \<Longrightarrow>
   lambda_handler_aid_try cfg w event =
     io_raise (RecursionError ''maximum recursion depth exceeded while encoding a JSON object'')"
  by (simp add: lambda_handler_aid_try_def json_dumps_deep)

lemma calls_aid_try_scale_down:
  assumes d: "describe_auto_scaling_groups w (AUTO_SCALING_GROUP_NAME cfg) = Inr (g # gs)"
    and act: "map_of kvs ''action'' = Some (PStr ''scale_down'')"
    and ok: "depth (PDict kvs) \<le> dumps_depth_limit w"
  shows "capacity_calls (fst (lambda_handler_aid_try cfg w (PDict kvs))) =
           (let new = max (DesiredCapacity g - SCALE_DOWN_INCREMENT cfg) (MIN_CAPACITY cfg)
            in if new = DesiredCapacity g then []
               else [Set_desired_capacity (AUTO_SCALING_GROUP_NAME cfg) new True])"
  using act
  by (simp add: lambda_handler_aid_try_def json_dumps_ok [OF ok] py_get_def
      get_asg_info_aid_ok [OF d] fst_io_bind snd_io_bind calls_scale_down Let_def
      split: sum.splits)

lemma calls_act_scale_down:
  assumes gate: "snd (is_in_cooldown cfg w (ASG_NAME cfg)) = Inr False"
    and d: "describe_auto_scaling_groups w (ASG_NAME cfg) = Inr (g # gs)"
  shows "capacity_calls (fst (lambda_handler_wf_act cfg w alert_type mv conf (PStr ''scale_down''))) =
           (let new = max (DesiredCapacity g - 1) (MIN_INSTANCES cfg)
            in if new \<ge> DesiredCapacity g then []
               else [Set_desired_capacity (ASG_NAME cfg) new True])"
  using gate
  by (simp add: lambda_handler_wf_act_def get_asg_info_wf_ok [OF d]
      fst_io_bind snd_io_bind calls_handle_scale_down Let_def split: sum.splits)

lemma snd_aid_try_analyze:
  assumes d: "describe_auto_scaling_groups w (AUTO_SCALING_GROUP_NAME cfg) = Inr (g # gs)"
    and n1: "(case map_of kvs ''action'' of Some v \<Rightarrow> v | None \<Rightarrow> PStr ''analyze'') \<noteq> PStr ''scale_up''"
    and n2: "(case map_of kvs ''action'' of Some v \<Rightarrow> v | None \<Rightarrow> PStr ''analyze'') \<noteq> PStr ''scale_down''"
    and ok: "depth (PDict kvs) \<le> dumps_depth_limit w"
  shows "snd (lambda_handler_aid_try cfg w (PDict kvs)) =
           Inr \<lparr>statusCode = 200, headers = None,
                body = [(''success'', Val (PBool True)),
                        (''timestamp'', Val (PStr (now_isoformat w))),
                        (''asg_name'', Val (PStr (AUTO_SCALING_GROUP_NAME cfg))),
                        (''action'', Val (PStr ''no_change'')),
                        (''message'', Val (PStr ''Analysis only, no scaling action taken'')),
                        (''current_capacity'', Val (PInt (DesiredCapacity g)))]\<rparr>"
    and "capacity_calls (fst (lambda_handler_aid_try cfg w (PDict kvs))) = []"
  using n1 n2
  by (simp_all add: lambda_handler_aid_try_def json_dumps_ok [OF ok] py_get_def get_asg_info_aid_ok [OF d]
      fst_io_bind snd_io_bind Let_def)

lemma act_unknown:
  assumes gate: "snd (is_in_cooldown cfg w (ASG_NAME cfg)) = Inr False"
    and d: "describe_auto_scaling_groups w (ASG_NAME cfg) = Inr (g # gs)"
    and n1: "action \<noteq> PStr ''scale_up''" and n2: "action \<noteq> PStr ''scale_down''"
  shows "snd (lambda_handler_wf_act cfg w alert_type mv conf action) =
           Inr (create_response 400 [(''error'', FString [Txt ''Unknown action: '', Str action])])"
    and "capacity_calls (fst (lambda_handler_wf_act cfg w alert_type mv conf action)) = []"
  using gate n1 n2
  by (simp_all add: lambda_handler_wf_act_def get_asg_info_wf_ok [OF d]
      fst_io_bind snd_io_bind Let_def split: sum.splits)

lemma calls_act_scale_up:
  assumes gate: "snd (is_in_cooldown cfg w (ASG_NAME cfg)) = Inr False"
    and d: "describe_auto_scaling_groups w (ASG_NAME cfg) = Inr (g # gs)"
  shows "capacity_calls (fst (lambda_handler_wf_act cfg w alert_type mv conf (PStr ''scale_up''))) =
           (let new = min (DesiredCapacity g + SCALE_UP_AMOUNT cfg) (MAX_INSTANCES cfg)
            in if new \<le> DesiredCapacity g then []
               else [Set_desired_capacity (ASG_NAME cfg) new False])"
  using gate
  by (simp add: lambda_handler_wf_act_def get_asg_info_wf_ok [OF d]
      fst_io_bind snd_io_bind calls_handle_scale_up Let_def split: sum.splits)

section \<open>Runs that differ only in what the metrics sink answers\<close>

lemma io_same_refl: "io_same m m"
  by (simp add: io_same_def)

lemma io_same_bind:
  "io_same m m' \<Longrightarrow> (\<And>x. io_same (f x) (f' x)) \<Longrightarrow> io_same (io_bind m f) (io_bind m' f')"
  by (simp add: io_same_def fst_io_bind snd_io_bind split: sum.splits)

lemma io_same_try:
  "io_same m m' \<Longrightarrow> (\<And>e. io_same (h e) (h' e)) \<Longrightarrow> io_same (io_try m h) (io_try m' h')"
  by (simp add: io_same_def fst_io_try snd_io_try split: sum.splits)

lemma io_same_if:
  "(c \<Longrightarrow> io_same a a') \<Longrightarrow> (\<not> c \<Longrightarrow> io_same b b')
   \<Longrightarrow> io_same (if c then a else b) (if c then a' else b')"
  by simp

lemma io_same_log: "io_same (log_scaling_event cfg w1 a t r) (log_scaling_event cfg w2 a t r)"
  by (simp add: io_same_def)

lemma io_same_send: "io_same (send_scaling_metric w1 n t a c) (send_scaling_metric w2 n t a c)"
  by (simp add: io_same_def)

lemma world_metrics:
  "describe_auto_scaling_groups (w\<lparr>put_metric_data := f\<rparr>) = describe_auto_scaling_groups w"
  "set_desired_capacity (w\<lparr>put_metric_data := f\<rparr>) = set_desired_capacity w"
  "now_isoformat (w\<lparr>put_metric_data := f\<rparr>) = now_isoformat w"
  "gate_activities (w\<lparr>put_metric_data := f\<rparr>) = gate_activities w"
  "gate_now (w\<lparr>put_metric_data := f\<rparr>) = gate_now w"
  "remaining_activities (w\<lparr>put_metric_data := f\<rparr>) = remaining_activities w"
  "remaining_now (w\<lparr>put_metric_data := f\<rparr>) = remaining_now w"
  "json_loads (w\<lparr>put_metric_data := f\<rparr>) = json_loads w"
  "dumps_depth_limit (w\<lparr>put_metric_data := f\<rparr>) = dumps_depth_limit w"
  by simp_all

lemma json_dumps_metrics:
  "json_dumps (w\<lparr>put_metric_data := f\<rparr>) v = json_dumps w v"
  unfolding json_dumps_def world_metrics by (rule refl)

lemma call_set_metrics:
  "call_set_desired_capacity (w\<lparr>put_metric_data := f\<rparr>) n c h = call_set_desired_capacity w n c h"
  unfolding call_set_desired_capacity_def world_metrics by (rule refl)

lemma scale_up_metrics:
  "scale_up cfg (w\<lparr>put_metric_data := f\<rparr>) info t s c = scale_up cfg w info t s c"
  unfolding scale_up_def Let_def call_set_metrics by (rule refl)

lemma scale_down_metrics:
  "scale_down cfg (w\<lparr>put_metric_data := f\<rparr>) info = scale_down cfg w info"
  unfolding scale_down_def Let_def call_set_metrics by (rule refl)

lemma get_asg_info_aid_metrics:
  "get_asg_info_aid cfg (w\<lparr>put_metric_data := f\<rparr>) = get_asg_info_aid cfg w"
  unfolding get_asg_info_aid_def world_metrics by (rule refl)

lemma aid_except_metrics:
  "lambda_handler_aid_except (w\<lparr>put_metric_data := f\<rparr>) = lambda_handler_aid_except w"
  unfolding lambda_handler_aid_except_def world_metrics by (rule refl)

lemma io_same_aid_try:
  "io_same (lambda_handler_aid_try cfg (w\<lparr>put_metric_data := f\<rparr>) event)
           (lambda_handler_aid_try cfg w event)"
  unfolding lambda_handler_aid_try_def Let_def scale_up_metrics scale_down_metrics
    get_asg_info_aid_metrics json_dumps_metrics
  by (intro io_same_refl io_same_bind io_same_log | simp add: io_same_def)+

lemma io_same_aid:
  "io_same (lambda_handler_aid cfg (w\<lparr>put_metric_data := f\<rparr>) event)
           (lambda_handler_aid cfg w event)"
  unfolding lambda_handler_aid_def aid_except_metrics
  by (intro io_same_try io_same_aid_try io_same_refl)

lemma parse_event_metrics:
  "parse_event (w\<lparr>put_metric_data := f\<rparr>) event = parse_event w event"
  unfolding parse_event_def world_metrics by (rule refl)

lemma is_in_cooldown_metrics:
  "is_in_cooldown cfg (w\<lparr>put_metric_data := f\<rparr>) n = is_in_cooldown cfg w n"
  unfolding is_in_cooldown_def world_metrics by (rule refl)

lemma get_cooldown_remaining_metrics:
  "get_cooldown_remaining cfg (w\<lparr>put_metric_data := f\<rparr>) n = get_cooldown_remaining cfg w n"
  unfolding get_cooldown_remaining_def world_metrics by (rule refl)

lemma get_asg_info_wf_metrics:
  "get_asg_info_wf (w\<lparr>put_metric_data := f\<rparr>) n = get_asg_info_wf w n"
  unfolding get_asg_info_wf_def world_metrics by (rule refl)

lemma io_same_handle_scale_up:
  "io_same (handle_scale_up cfg (w\<lparr>put_metric_data := f\<rparr>) n cur t mv conf)
           (handle_scale_up cfg w n cur t mv conf)"
  unfolding io_same_def snd_handle_scale_up calls_handle_scale_up world_metrics by simp

lemma io_same_handle_scale_down:
  "io_same (handle_scale_down cfg (w\<lparr>put_metric_data := f\<rparr>) n cur t)
           (handle_scale_down cfg w n cur t)"
  unfolding io_same_def snd_handle_scale_down calls_handle_scale_down world_metrics by simp

lemma io_same_act:
  "io_same (lambda_handler_wf_act cfg (w\<lparr>put_metric_data := f\<rparr>) t mv conf action)
           (lambda_handler_wf_act cfg w t mv conf action)"
  unfolding lambda_handler_wf_act_def Let_def is_in_cooldown_metrics
    get_cooldown_remaining_metrics get_asg_info_wf_metrics
  by (intro io_same_refl io_same_bind io_same_if io_same_handle_scale_up
        io_same_handle_scale_down)

lemma io_same_wf:
  "io_same (lambda_handler_wf cfg (w\<lparr>put_metric_data := f\<rparr>) event)
           (lambda_handler_wf cfg w event)"
  unfolding lambda_handler_wf_def lambda_handler_wf_try_def parse_event_metrics
    json_dumps_metrics
  by (intro io_same_refl io_same_bind io_same_try io_same_act)

section \<open>The flag of every capacity call, and events that cannot be handled\<close>

lemma mem_calls_scale_down:
  "Set_desired_capacity n c h \<in> set (fst (scale_down cfg w info)) \<Longrightarrow> h"
  by (drule mem_capacity_calls) (simp add: calls_scale_down Let_def split: if_splits)

lemma mem_calls_scale_up:
  "Set_desired_capacity n c h \<in> set (fst (scale_up cfg w info alert_type severity conf)) \<Longrightarrow> \<not> h"
  by (drule mem_capacity_calls)
    (auto simp add: calls_scale_up_any Let_def split: if_splits sum.splits)

lemma mem_calls_handle_scale_up:
  "Set_desired_capacity m c h \<in> set (fst (handle_scale_up cfg w n cur alert_type mv conf)) \<Longrightarrow> \<not> h"
  by (drule mem_capacity_calls) (simp add: calls_handle_scale_up Let_def split: if_splits)

lemma mem_calls_handle_scale_down:
  "Set_desired_capacity m c h \<in> set (fst (handle_scale_down cfg w n cur alert_type)) \<Longrightarrow> h"
  by (drule mem_capacity_calls) (simp add: calls_handle_scale_down Let_def split: if_splits)


lemma snd_aid_try_not_dict:
  "depth event \<le> dumps_depth_limit w \<Longrightarrow> (\<forall>kvs. event \<noteq> PDict kvs) \<Longrightarrow>
   snd (lambda_handler_aid_try cfg w event) = Inl (AttributeError event ''get'')"
  by (cases event) (simp_all add: lambda_handler_aid_try_def json_dumps_def py_get_def)

lemma snd_aid_try_no_fleet:
  "depth (PDict kvs) \<le> dumps_depth_limit w \<Longrightarrow>
   describe_auto_scaling_groups w (AUTO_SCALING_GROUP_NAME cfg) = Inl e \<Longrightarrow>
   snd (lambda_handler_aid_try cfg w (PDict kvs)) = Inl e"
  by (simp add: lambda_handler_aid_try_def json_dumps_ok py_get_def get_asg_info_aid_def
      io_lift_def snd_io_bind)

lemma snd_wf_try_not_dict:
  "(\<forall>kvs. event \<noteq> PDict kvs) \<Longrightarrow> \<exists>e. snd (lambda_handler_wf_try cfg w event) = Inl e"
  by (cases event)
    (simp_all add: lambda_handler_wf_try_def parse_event_def py_contains_def py_getitem_def
      py_get_def snd_io_bind)

lemma lambda_handler_aid_responds: "\<exists>r. snd (lambda_handler_aid cfg w event) = Inr r"
  by (simp add: snd_lambda_handler_aid split: sum.splits)

lemma lambda_handler_wf_responds:
  "depth event \<le> dumps_depth_limit w \<Longrightarrow> \<exists>r. snd (lambda_handler_wf cfg w event) = Inr r"
  by (simp add: snd_lambda_handler_wf split: sum.splits)

lemma lambda_handler_wf_raises_iff:
  "(\<exists>e. snd (lambda_handler_wf cfg w event) = Inl e) \<longleftrightarrow> dumps_depth_limit w < depth event"
proof (cases "depth event \<le> dumps_depth_limit w")
  case True
  then show ?thesis
    using lambda_handler_wf_responds [OF True, of cfg] by auto
next
  case False
  then have "dumps_depth_limit w < depth event" by simp
  then show ?thesis
    by (simp add: lambda_handler_wf_deep)
qed

lemma snd_wf_try_not_dict_500:
  assumes ok: "depth event \<le> dumps_depth_limit w"
    and nd: "\<forall>kvs. event \<noteq> PDict kvs"
  shows "\<exists>e. snd (lambda_handler_wf cfg w event) =
           Inr (create_response 500
                  [(''error'', Val (PStr ''Internal server error'')),
                   (''message'', FString [StrExn e]),
                   (''alert_sent_to_ops'', Val (PBool True))])"
  using snd_wf_try_not_dict [OF nd, of cfg w] by (auto simp add: snd_lambda_handler_wf [OF ok])

section \<open>The claims\<close>

subsection \<open>C1: the cooldown gate and the override for critical scale-up\<close>




subsection \<open>C3: the boundary of the cooldown window\<close>



subsection \<open>C7: no history, or no answer about it\<close>

text \<open>
  C7. With no scaling activity on record \<^verbatim>\<open>is_in_cooldown\<close> returns \<open>False\<close> and
  \<^verbatim>\<open>get_cooldown_remaining\<close> returns 0; when the lookup raises, both print the
  error and return the same; neither ever raises.
\<close>

theorem C7_unknown_history_not_suppressed:
  "(gate_activities w n = Inr [] \<longrightarrow> is_in_cooldown cfg w n = ([], Inr False))
   \<and> (remaining_activities w n = Inr [] \<longrightarrow> get_cooldown_remaining cfg w n = ([], Inr 0))
   \<and> (gate_activities w n = Inl e \<longrightarrow>
        is_in_cooldown cfg w n =
          ([Print [Txt ''Error checking cooldown: '', StrExn e]], Inr False))
   \<and> (remaining_activities w n = Inl e \<longrightarrow>
        get_cooldown_remaining cfg w n =
          ([Print [Txt ''Error getting cooldown remaining: '', StrExn e]], Inr 0))
   \<and> (\<exists>b. snd (is_in_cooldown cfg w n) = Inr b)
   \<and> (\<exists>r. snd (get_cooldown_remaining cfg w n) = Inr r)"
proof -
  have "gate_activities w n = Inr [] \<longrightarrow> is_in_cooldown cfg w n = ([], Inr False)"
    by (simp add: is_in_cooldown_def io_lift_def io_bind_def io_try_def io_return_def)
  moreover have "remaining_activities w n = Inr [] \<longrightarrow> get_cooldown_remaining cfg w n = ([], Inr 0)"
    by (simp add: get_cooldown_remaining_def io_lift_def io_bind_def io_try_def io_return_def)
  moreover have "gate_activities w n = Inl e \<longrightarrow>
        is_in_cooldown cfg w n =
          ([Print [Txt ''Error checking cooldown: '', StrExn e]], Inr False)"
    by (simp add: is_in_cooldown_def io_lift_def io_bind_def io_try_def io_return_def io_print_def)
  moreover have "remaining_activities w n = Inl e \<longrightarrow>
        get_cooldown_remaining cfg w n =
          ([Print [Txt ''Error getting cooldown remaining: '', StrExn e]], Inr 0)"
    by (simp add: get_cooldown_remaining_def io_lift_def io_bind_def io_try_def io_return_def io_print_def)
  moreover have "\<exists>b. snd (is_in_cooldown cfg w n) = Inr b"
    by (simp add: snd_is_in_cooldown)
  moreover have "\<exists>r. snd (get_cooldown_remaining cfg w n) = Inr r"
    by (simp add: snd_get_cooldown_remaining)
  ultimately show ?thesis by blast
qed

theorem C7_witness:
  "is_in_cooldown default_config_wf (no_history (calm_world 4 0 0)) ''production-asg'' = ([], Inr False)
   \<and> get_cooldown_remaining default_config_wf (no_history (calm_world 4 0 0)) ''production-asg'' = ([], Inr 0)
   \<and> is_in_cooldown default_config_wf (history_down (calm_world 4 0 0)) ''production-asg'' =
       ([Print [Txt ''Error checking cooldown: '', StrExn (ClientError ''Throttling'')]], Inr False)
   \<and> get_cooldown_remaining default_config_wf (history_down (calm_world 4 0 0)) ''production-asg'' =
       ([Print [Txt ''Error getting cooldown remaining: '', StrExn (ClientError ''Throttling'')]], Inr 0)"
  using C7_unknown_history_not_suppressed
          [where w = "no_history (calm_world 4 0 0)" and n = "''production-asg''"
             and cfg = default_config_wf]
        C7_unknown_history_not_suppressed
          [where w = "history_down (calm_world 4 0 0)" and n = "''production-asg''"
             and e = "ClientError ''Throttling''" and cfg = default_config_wf]
  by (simp add: no_history_def history_down_def calm_world_def)

subsection \<open>C2: amplification of the scale-up increment\<close>

text \<open>
  C2 (as amended). \<^verbatim>\<open>scale_up\<close> of \<^verbatim>\<open>autoscale_handler.py\<close> doubles the increment
  exactly when the severity is critical or the (integer) confidence is above 90, given a
  base increment other than 0, and uses the base increment otherwise; the capacity it
  asks for is \<open>min (current + increment) MAX_CAPACITY\<close>. \<^verbatim>\<open>handle_scale_up\<close> of
  \<^verbatim>\<open>auto_scale_handler.py\<close> never amplifies: whatever the confidence, it asks for
  \<open>min (current + SCALE_UP_AMOUNT) MAX_INSTANCES\<close>.
\<close>

theorem C2_amplification_in_scale_up_only:
  assumes base: "SCALE_UP_INCREMENT cfg \<noteq> 0"
  shows
    "(\<forall>res. snd (scale_up cfg w info alert_type severity (PInt c)) = Inr res
            \<and> map_of res ''action'' = Some (Val (PStr ''scaled_up''))
        \<longrightarrow> (\<exists>inc. map_of res ''increment'' = Some (Val (PInt inc))
                  \<and> (inc = 2 * SCALE_UP_INCREMENT cfg
                       \<longleftrightarrow> severity = PStr ''critical'' \<or> c > 90)
                  \<and> (\<not> (severity = PStr ''critical'' \<or> c > 90)
                       \<longrightarrow> inc = SCALE_UP_INCREMENT cfg)
                  \<and> map_of res ''new_capacity'' =
                      Some (Val (PInt (min (desired_capacity info + inc) (MAX_CAPACITY cfg))))))
     \<and> capacity_calls (fst (scale_up cfg w info alert_type severity (PInt c))) =
         (let inc = (if severity = PStr ''critical'' \<or> c > 90 then 2 * SCALE_UP_INCREMENT cfg
                     else SCALE_UP_INCREMENT cfg);
              new = min (desired_capacity info + inc) (MAX_CAPACITY cfg)
          in if new = desired_capacity info then []
             else [Set_desired_capacity (AUTO_SCALING_GROUP_NAME cfg) new False])
     \<and> capacity_calls (fst (handle_scale_up cfgw w n cur alert_type mv conf)) =
         (let new = min (cur + SCALE_UP_AMOUNT cfgw) (MAX_INSTANCES cfgw)
          in if new \<le> cur then [] else [Set_desired_capacity n new False])
     \<and> (\<forall>r. snd (handle_scale_up cfgw w n cur alert_type mv conf) = Inr r
            \<and> map_of (body r) ''success'' = Some (Val (PBool True))
        \<longrightarrow> map_of (body r) ''instances_added'' =
              Some (Val (PInt (min (cur + SCALE_UP_AMOUNT cfgw) (MAX_INSTANCES cfgw) - cur))))"
proof -
  have a: "\<forall>res. snd (scale_up cfg w info alert_type severity (PInt c)) = Inr res
            \<and> map_of res ''action'' = Some (Val (PStr ''scaled_up''))
        \<longrightarrow> (\<exists>inc. map_of res ''increment'' = Some (Val (PInt inc))
                  \<and> (inc = 2 * SCALE_UP_INCREMENT cfg
                       \<longleftrightarrow> severity = PStr ''critical'' \<or> c > 90)
                  \<and> (\<not> (severity = PStr ''critical'' \<or> c > 90)
                       \<longrightarrow> inc = SCALE_UP_INCREMENT cfg)
                  \<and> map_of res ''new_capacity'' =
                      Some (Val (PInt (min (desired_capacity info + inc) (MAX_CAPACITY cfg)))))"
    using base
    by (auto simp add: snd_scale_up Let_def split: if_splits option.splits)
  have b: "capacity_calls (fst (scale_up cfg w info alert_type severity (PInt c))) =
         (let inc = (if severity = PStr ''critical'' \<or> c > 90 then 2 * SCALE_UP_INCREMENT cfg
                     else SCALE_UP_INCREMENT cfg);
              new = min (desired_capacity info + inc) (MAX_CAPACITY cfg)
          in if new = desired_capacity info then []
             else [Set_desired_capacity (AUTO_SCALING_GROUP_NAME cfg) new False])"
    by (simp add: calls_scale_up Let_def mult.commute)
  have c: "\<forall>r. snd (handle_scale_up cfgw w n cur alert_type mv conf) = Inr r
            \<and> map_of (body r) ''success'' = Some (Val (PBool True))
        \<longrightarrow> map_of (body r) ''instances_added'' =
              Some (Val (PInt (min (cur + SCALE_UP_AMOUNT cfgw) (MAX_INSTANCES cfgw) - cur)))"
    by (auto simp add: snd_handle_scale_up create_response_def Let_def
        split: if_splits option.splits)
  show ?thesis
    using a b c calls_handle_scale_up [of cfgw w n cur alert_type mv conf] by blast
qed

theorem C2_counterexample:
  "capacity_calls (fst (handle_scale_up default_config_wf (calm_world 4 0 1000000000)
      ''production-asg'' 4 (PStr ''cpu'') (PInt 92) (PInt 95)))
     = [Set_desired_capacity ''production-asg'' 6 False]
   \<and> snd (handle_scale_up default_config_wf (calm_world 4 0 1000000000)
      ''production-asg'' 4 (PStr ''cpu'') (PInt 92) (PInt 95))
     = Inr (create_response 200
         [(''success'', Val (PBool True)),
          (''message'', FString [Txt ''Successfully scaled up from '',
              Str (PInt 4), Txt '' to '', Str (PInt 6), Txt '' instances'']),
          (''previous_capacity'', Val (PInt 4)),
          (''new_capacity'', Val (PInt 6)),
          (''instances_added'', Val (PInt 2)),
          (''alert_type'', Val (PStr ''cpu'')),
          (''metric_value'', Val (PInt 92)),
          (''ai_confidence'', Val (PInt 95)),
          (''timestamp'', Val (PStr ''2025-01-01T00:00:00'')),
          (''estimated_ready_time'', Val (PStr ''3-5 minutes''))])"
  by (simp add: calls_handle_scale_up snd_handle_scale_up default_config_wf_def calm_world_def)

theorem C2_witness:
  "capacity_calls (fst (scale_up default_config_aid (calm_world 4 0 0)
      \<lparr>name = ''production-asg'', desired_capacity = 4, min_size = 2, max_size = 10,
        instance_count = 0, instances = [], health_status = []\<rparr>
      (PStr ''cpu'') (PStr ''critical'') (PInt 95)))
     = [Set_desired_capacity ''production-asg'' 8 False]
   \<and> capacity_calls (fst (scale_up default_config_aid (calm_world 9 0 0)
      \<lparr>name = ''production-asg'', desired_capacity = 9, min_size = 2, max_size = 10,
        instance_count = 0, instances = [], health_status = []\<rparr>
      (PStr ''cpu'') (PStr ''warning'') (PInt 50)))
     = [Set_desired_capacity ''production-asg'' 10 False]
   \<and> capacity_calls (fst (handle_scale_up default_config_wf (calm_world 4 0 0)
      ''production-asg'' 4 (PStr ''cpu'') (PInt 92) (PInt 95)))
     = [Set_desired_capacity ''production-asg'' 6 False]"
  using C2_amplification_in_scale_up_only
          [where cfg = default_config_aid and w = "calm_world 4 0 0"
             and info = "\<lparr>name = ''production-asg'', desired_capacity = 4, min_size = 2,
                           max_size = 10, instance_count = 0, instances = [],
                           health_status = []\<rparr>"
             and alert_type = "PStr ''cpu''" and severity = "PStr ''critical''" and c = 95
             and cfgw = default_config_wf and n = "''production-asg''" and cur = 4
             and mv = "PInt 92" and conf = "PInt 95"]
        C2_amplification_in_scale_up_only
          [where cfg = default_config_aid and w = "calm_world 9 0 0"
             and info = "\<lparr>name = ''production-asg'', desired_capacity = 9, min_size = 2,
                           max_size = 10, instance_count = 0, instances = [],
                           health_status = []\<rparr>"
             and alert_type = "PStr ''cpu''" and severity = "PStr ''warning''" and c = 50
             and cfgw = default_config_wf and n = "''production-asg''" and cur = 4
             and mv = "PInt 92" and conf = "PInt 95"]
  by (simp add: default_config_aid_def default_config_wf_def calm_world_def)

subsection \<open>C4: a planned scale-up stays between the current capacity and the maximum\<close>




subsection \<open>C5: a planned scale-down is one step, never below the minimum\<close>

text \<open>
  C5. With the current capacity at least the configured minimum and a positive
  decrement, \<^verbatim>\<open>scale_down\<close> asks for and reports
  \<open>max (current - SCALE_DOWN_INCREMENT) MIN_CAPACITY\<close>, and \<^verbatim>\<open>handle_scale_down\<close>
  (whose decrement is the constant 1) \<open>max (current - 1) MIN_INSTANCES\<close>; the value lies
  between the minimum and the current capacity. A result without \<open>new_capacity\<close> reports
  the unchanged capacity, and a result is returned when the provider accepts the call.
  Neither function takes the severity or the confidence: for every event whose action is
  \<open>scale_down\<close>, whatever else it holds, the capacity calls of both handlers are those
  of this one step (the event being one that the handler's first \<^verbatim>\<open>print\<close>
  serialises).
\<close>

theorem C5_scale_down_single_step:
  assumes a1: "MIN_CAPACITY cfg \<le> desired_capacity info"
    and a2: "0 < SCALE_DOWN_INCREMENT cfg"
    and b1: "MIN_INSTANCES cfgw \<le> cur"
    and d: "describe_auto_scaling_groups w (AUTO_SCALING_GROUP_NAME cfg) = Inr (g # gs)"
    and act: "map_of kvs ''action'' = Some (PStr ''scale_down'')"
    and gate: "snd (is_in_cooldown cfgw w (ASG_NAME cfgw)) = Inr False"
    and dw: "describe_auto_scaling_groups w (ASG_NAME cfgw) = Inr (g' # gs')"
    and p: "snd (parse_event w event) = Inr (PDict kvs')"
    and act': "map_of kvs' ''action'' = Some (PStr ''scale_down'')"
    and oka: "depth (PDict kvs) \<le> dumps_depth_limit w"
    and ok: "depth event \<le> dumps_depth_limit w"
  shows
    "capacity_calls (fst (scale_down cfg w info)) =
       (let new = max (desired_capacity info - SCALE_DOWN_INCREMENT cfg) (MIN_CAPACITY cfg)
        in if new = desired_capacity info then []
           else [Set_desired_capacity (AUTO_SCALING_GROUP_NAME cfg) new True])
     \<and> MIN_CAPACITY cfg
          \<le> max (desired_capacity info - SCALE_DOWN_INCREMENT cfg) (MIN_CAPACITY cfg)
     \<and> max (desired_capacity info - SCALE_DOWN_INCREMENT cfg) (MIN_CAPACITY cfg)
          \<le> desired_capacity info
     \<and> (\<forall>res c. snd (scale_down cfg w info) = Inr res
            \<and> map_of res ''new_capacity'' = Some (Val (PInt c))
        \<longrightarrow> c = max (desired_capacity info - SCALE_DOWN_INCREMENT cfg) (MIN_CAPACITY cfg)
            \<and> map_of res ''decrement'' = Some (Val (PInt (SCALE_DOWN_INCREMENT cfg))))
     \<and> (\<forall>res. snd (scale_down cfg w info) = Inr res \<and> map_of res ''new_capacity'' = None
        \<longrightarrow> map_of res ''current_capacity'' =
              Some (Val (PInt (max (desired_capacity info - SCALE_DOWN_INCREMENT cfg)
                                (MIN_CAPACITY cfg)))))
     \<and> ((\<forall>c. set_desired_capacity w (AUTO_SCALING_GROUP_NAME cfg) c True = None)
        \<longrightarrow> (\<exists>res. snd (scale_down cfg w info) = Inr res))
     \<and> capacity_calls (fst (handle_scale_down cfgw w n cur alert_type)) =
         (let new = max (cur - 1) (MIN_INSTANCES cfgw)
          in if new \<ge> cur then [] else [Set_desired_capacity n new True])
     \<and> MIN_INSTANCES cfgw \<le> max (cur - 1) (MIN_INSTANCES cfgw)
     \<and> max (cur - 1) (MIN_INSTANCES cfgw) \<le> cur
     \<and> (\<forall>r c. snd (handle_scale_down cfgw w n cur alert_type) = Inr r
            \<and> map_of (body r) ''new_capacity'' = Some (Val (PInt c))
        \<longrightarrow> c = max (cur - 1) (MIN_INSTANCES cfgw)
            \<and> map_of (body r) ''instances_removed'' = Some (Val (PInt 1)))
     \<and> (\<forall>r. snd (handle_scale_down cfgw w n cur alert_type) = Inr r
            \<and> map_of (body r) ''new_capacity'' = None
        \<longrightarrow> map_of (body r) ''current_capacity'' =
              Some (Val (PInt (max (cur - 1) (MIN_INSTANCES cfgw)))))
     \<and> ((\<forall>c. set_desired_capacity w n c True = None)
        \<longrightarrow> (\<exists>r. snd (handle_scale_down cfgw w n cur alert_type) = Inr r))
     \<and> capacity_calls (fst (lambda_handler_aid cfg w (PDict kvs))) =
         (let new = max (DesiredCapacity g - SCALE_DOWN_INCREMENT cfg) (MIN_CAPACITY cfg)
          in if new = DesiredCapacity g then []
             else [Set_desired_capacity (AUTO_SCALING_GROUP_NAME cfg) new True])
     \<and> capacity_calls (fst (lambda_handler_wf cfgw w event)) =
         (let new = max (DesiredCapacity g' - 1) (MIN_INSTANCES cfgw)
          in if new \<ge> DesiredCapacity g' then []
             else [Set_desired_capacity (ASG_NAME cfgw) new True])"
proof -
  have p2: "MIN_CAPACITY cfg
          \<le> max (desired_capacity info - SCALE_DOWN_INCREMENT cfg) (MIN_CAPACITY cfg)"
    by simp
  have p3: "max (desired_capacity info - SCALE_DOWN_INCREMENT cfg) (MIN_CAPACITY cfg)
          \<le> desired_capacity info"
    using a1 a2 by simp
  have p4: "\<forall>res c. snd (scale_down cfg w info) = Inr res
            \<and> map_of res ''new_capacity'' = Some (Val (PInt c))
        \<longrightarrow> c = max (desired_capacity info - SCALE_DOWN_INCREMENT cfg) (MIN_CAPACITY cfg)
            \<and> map_of res ''decrement'' = Some (Val (PInt (SCALE_DOWN_INCREMENT cfg)))"
    by (auto simp add: snd_scale_down Let_def split: if_splits option.splits)
  have p5: "\<forall>res. snd (scale_down cfg w info) = Inr res \<and> map_of res ''new_capacity'' = None
        \<longrightarrow> map_of res ''current_capacity'' =
              Some (Val (PInt (max (desired_capacity info - SCALE_DOWN_INCREMENT cfg)
                                (MIN_CAPACITY cfg))))"
    by (auto simp add: snd_scale_down Let_def split: if_splits option.splits)
  have p6: "(\<forall>c. set_desired_capacity w (AUTO_SCALING_GROUP_NAME cfg) c True = None)
        \<longrightarrow> (\<exists>res. snd (scale_down cfg w info) = Inr res)"
    by (simp add: snd_scale_down Let_def)
  have q2: "MIN_INSTANCES cfgw \<le> max (cur - 1) (MIN_INSTANCES cfgw)"
    by simp
  have q3: "max (cur - 1) (MIN_INSTANCES cfgw) \<le> cur"
    using b1 by simp
  have q4: "\<forall>r c. snd (handle_scale_down cfgw w n cur alert_type) = Inr r
            \<and> map_of (body r) ''new_capacity'' = Some (Val (PInt c))
        \<longrightarrow> c = max (cur - 1) (MIN_INSTANCES cfgw)
            \<and> map_of (body r) ''instances_removed'' = Some (Val (PInt 1))"
    using b1
    by (auto simp add: snd_handle_scale_down create_response_def Let_def
        split: if_splits option.splits)
  have q5: "\<forall>r. snd (handle_scale_down cfgw w n cur alert_type) = Inr r
            \<and> map_of (body r) ''new_capacity'' = None
        \<longrightarrow> map_of (body r) ''current_capacity'' =
              Some (Val (PInt (max (cur - 1) (MIN_INSTANCES cfgw))))"
    using b1
    by (auto simp add: snd_handle_scale_down create_response_def Let_def
        split: if_splits option.splits)
  have q6: "(\<forall>c. set_desired_capacity w n c True = None)
        \<longrightarrow> (\<exists>r. snd (handle_scale_down cfgw w n cur alert_type) = Inr r)"
    by (simp add: snd_handle_scale_down Let_def)
  have h1: "capacity_calls (fst (lambda_handler_aid cfg w (PDict kvs))) =
         (let new = max (DesiredCapacity g - SCALE_DOWN_INCREMENT cfg) (MIN_CAPACITY cfg)
          in if new = DesiredCapacity g then []
             else [Set_desired_capacity (AUTO_SCALING_GROUP_NAME cfg) new True])"
    by (simp only: calls_lambda_handler_aid calls_aid_try_scale_down [OF d act oka])
  have h2: "capacity_calls (fst (lambda_handler_wf cfgw w event)) =
         (let new = max (DesiredCapacity g' - 1) (MIN_INSTANCES cfgw)
          in if new \<ge> DesiredCapacity g' then []
             else [Set_desired_capacity (ASG_NAME cfgw) new True])"
    using act'
    by (simp add: calls_lambda_handler_wf [OF ok] calls_wf_try_parsed [OF p]
        calls_act_scale_down [OF gate dw])
  show ?thesis
    using calls_scale_down [of cfg w info] calls_handle_scale_down [of cfgw w n cur alert_type]
      p2 p3 p4 p5 p6 q2 q3 q4 q5 q6 h1 h2
    by blast
qed

theorem C5_witness:
  "capacity_calls (fst (scale_down default_config_aid (calm_world 4 0 1000000000) (info_of 4)))
     = [Set_desired_capacity ''production-asg'' 3 True]
   \<and> capacity_calls (fst (handle_scale_down default_config_wf (calm_world 4 0 1000000000)
        ''production-asg'' 4 (PStr ''cpu'')))
     = [Set_desired_capacity ''production-asg'' 3 True]
   \<and> capacity_calls (fst (lambda_handler_aid default_config_aid (calm_world 4 0 1000000000)
        (PDict [(''action'', PStr ''scale_down''), (''severity'', PStr ''critical''),
                (''ai_confidence'', PInt 95)])))
     = [Set_desired_capacity ''production-asg'' 3 True]
   \<and> capacity_calls (fst (lambda_handler_wf default_config_wf (calm_world 4 0 1000000000)
        (PDict [(''action'', PStr ''scale_down''), (''severity'', PStr ''critical''),
                (''ai_confidence'', PInt 95)])))
     = [Set_desired_capacity ''production-asg'' 3 True]"
  using C5_scale_down_single_step
          [where cfg = default_config_aid and w = "calm_world 4 0 1000000000"
             and info = "info_of 4" and cfgw = default_config_wf and cur = 4
             and n = "''production-asg''" and alert_type = "PStr ''cpu''"
             and g = "\<lparr>AutoScalingGroupName = ''production-asg'', DesiredCapacity = 4,
                        MinSize = 2, MaxSize = 10, Instances = []\<rparr>" and gs = "[]"
             and g' = "\<lparr>AutoScalingGroupName = ''production-asg'', DesiredCapacity = 4,
                        MinSize = 2, MaxSize = 10, Instances = []\<rparr>" and gs' = "[]"
             and kvs = "[(''action'', PStr ''scale_down''), (''severity'', PStr ''critical''),
                         (''ai_confidence'', PInt 95)]"
             and kvs' = "[(''action'', PStr ''scale_down''), (''severity'', PStr ''critical''),
                          (''ai_confidence'', PInt 95)]"
             and event = "PDict [(''action'', PStr ''scale_down''),
                                 (''severity'', PStr ''critical''),
                                 (''ai_confidence'', PInt 95)]"]
  by (simp add: parse_event_direct default_config_aid_def default_config_wf_def calm_world_def info_of_def
      snd_is_in_cooldown timedelta_seconds_def)

subsection \<open>C6: actions other than scale-up and scale-down\<close>

text \<open>
  C6 (as amended). The events are those that the handler's first \<^verbatim>\<open>print\<close>
  serialises. In \<^verbatim>\<open>autoscale_handler.py\<close> an event whose action (\<open>analyze\<close>
  when the key is missing) is neither \<open>scale_up\<close> nor \<open>scale_down\<close> gets, once the
  fleet's state is read, a 200 response with action \<open>no_change\<close>, and no capacity call is
  made. In \<^verbatim>\<open>auto_scale_handler.py\<close>, outside the cooldown and with the fleet's state
  read, an event whose body parses to a dictionary with such an action gets a 400
  response "Unknown action", again with no capacity call, and one without the key is a
  scale-up request.
\<close>

theorem C6_other_actions:
  assumes d: "describe_auto_scaling_groups w (AUTO_SCALING_GROUP_NAME cfg) = Inr (g # gs)"
    and n1: "(case map_of kvs ''action'' of Some v \<Rightarrow> v | None \<Rightarrow> PStr ''analyze'')
               \<noteq> PStr ''scale_up''"
    and n2: "(case map_of kvs ''action'' of Some v \<Rightarrow> v | None \<Rightarrow> PStr ''analyze'')
               \<noteq> PStr ''scale_down''"
    and gate: "snd (is_in_cooldown cfgw w (ASG_NAME cfgw)) = Inr False"
    and dw: "describe_auto_scaling_groups w (ASG_NAME cfgw) = Inr (g' # gs')"
    and p: "snd (parse_event w event) = Inr (PDict kvs')"
    and aw: "map_of kvs' ''action'' = Some action"
    and m1: "action \<noteq> PStr ''scale_up''"
    and m2: "action \<noteq> PStr ''scale_down''"
    and p0: "snd (parse_event w event0) = Inr (PDict kvs0)"
    and a0: "map_of kvs0 ''action'' = None"
    and oka: "depth (PDict kvs) \<le> dumps_depth_limit w"
    and ok: "depth event \<le> dumps_depth_limit w"
    and ok0: "depth event0 \<le> dumps_depth_limit w"
  shows
    "snd (lambda_handler_aid cfg w (PDict kvs)) =
       Inr \<lparr>statusCode = 200, headers = None,
            body = [(''success'', Val (PBool True)),
                    (''timestamp'', Val (PStr (now_isoformat w))),
                    (''asg_name'', Val (PStr (AUTO_SCALING_GROUP_NAME cfg))),
                    (''action'', Val (PStr ''no_change'')),
                    (''message'', Val (PStr ''Analysis only, no scaling action taken'')),
                    (''current_capacity'', Val (PInt (DesiredCapacity g)))]\<rparr>
     \<and> capacity_calls (fst (lambda_handler_aid cfg w (PDict kvs))) = []
     \<and> snd (lambda_handler_wf cfgw w event) =
         Inr (create_response 400
                [(''error'', FString [Txt ''Unknown action: '', Str action])])
     \<and> capacity_calls (fst (lambda_handler_wf cfgw w event)) = []
     \<and> capacity_calls (fst (lambda_handler_wf cfgw w event0)) =
         (let new = min (DesiredCapacity g' + SCALE_UP_AMOUNT cfgw) (MAX_INSTANCES cfgw)
          in if new \<le> DesiredCapacity g' then []
             else [Set_desired_capacity (ASG_NAME cfgw) new False])"
proof -
  have p1: "snd (lambda_handler_aid cfg w (PDict kvs)) =
       Inr \<lparr>statusCode = 200, headers = None,
            body = [(''success'', Val (PBool True)),
                    (''timestamp'', Val (PStr (now_isoformat w))),
                    (''asg_name'', Val (PStr (AUTO_SCALING_GROUP_NAME cfg))),
                    (''action'', Val (PStr ''no_change'')),
                    (''message'', Val (PStr ''Analysis only, no scaling action taken'')),
                    (''current_capacity'', Val (PInt (DesiredCapacity g)))]\<rparr>"
    by (simp add: snd_lambda_handler_aid snd_aid_try_analyze(1) [OF d n1 n2 oka])
  have p2: "capacity_calls (fst (lambda_handler_aid cfg w (PDict kvs))) = []"
    by (simp add: calls_lambda_handler_aid snd_aid_try_analyze(2) [OF d n1 n2 oka])
  have q1: "snd (lambda_handler_wf cfgw w event) =
         Inr (create_response 400
                [(''error'', FString [Txt ''Unknown action: '', Str action])])"
    by (simp add: snd_lambda_handler_wf [OF ok] snd_wf_try_parsed [OF p] aw
        act_unknown(1) [OF gate dw m1 m2])
  have q2: "capacity_calls (fst (lambda_handler_wf cfgw w event)) = []"
    by (simp add: calls_lambda_handler_wf [OF ok] calls_wf_try_parsed [OF p] aw
        act_unknown(2) [OF gate dw m1 m2])
  have q3: "capacity_calls (fst (lambda_handler_wf cfgw w event0)) =
         (let new = min (DesiredCapacity g' + SCALE_UP_AMOUNT cfgw) (MAX_INSTANCES cfgw)
          in if new \<le> DesiredCapacity g' then []
             else [Set_desired_capacity (ASG_NAME cfgw) new False])"
    by (simp add: calls_lambda_handler_wf [OF ok0] calls_wf_try_parsed [OF p0] a0
        calls_act_scale_up [OF gate dw])
  from p1 p2 q1 q2 q3 show ?thesis by blast
qed

theorem C6_counterexample:
  "snd (lambda_handler_wf default_config_wf (no_history (calm_world 4 0 0))
          (PDict [(''action'', PStr ''analyze''), (''alert_type'', PStr ''cpu'')])) =
     Inr (create_response 400
            [(''error'', FString [Txt ''Unknown action: '', Str (PStr ''analyze'')])])
   \<and> capacity_calls (fst (lambda_handler_wf default_config_wf (no_history (calm_world 4 0 0))
          (PDict [(''alert_type'', PStr ''cpu'')]))) =
     [Set_desired_capacity ''production-asg'' 6 False]"
proof -
  have gate: "snd (is_in_cooldown default_config_wf (no_history (calm_world 4 0 0))
                (ASG_NAME default_config_wf)) = Inr False"
    by (simp add: snd_is_in_cooldown no_history_def calm_world_def)
  have d: "describe_auto_scaling_groups (no_history (calm_world 4 0 0))
             (ASG_NAME default_config_wf) =
           Inr [\<lparr>AutoScalingGroupName = ''production-asg'', DesiredCapacity = 4,
                  MinSize = 2, MaxSize = 10, Instances = []\<rparr>]"
    by (simp add: no_history_def calm_world_def default_config_wf_def)
  have "snd (lambda_handler_wf default_config_wf (no_history (calm_world 4 0 0))
          (PDict [(''action'', PStr ''analyze''), (''alert_type'', PStr ''cpu'')])) =
     Inr (create_response 400
            [(''error'', FString [Txt ''Unknown action: '', Str (PStr ''analyze'')])])"
    by (simp add: snd_lambda_handler_wf snd_wf_try_direct act_unknown(1) [OF gate d])
  moreover have "capacity_calls (fst (lambda_handler_wf default_config_wf
          (no_history (calm_world 4 0 0)) (PDict [(''alert_type'', PStr ''cpu'')]))) =
     [Set_desired_capacity ''production-asg'' 6 False]"
    using calls_act_scale_up [OF gate d, of "PStr ''cpu''" "PInt 0" "PStr ''unknown''"]
    by (simp add: calls_lambda_handler_wf calls_wf_try_direct default_config_wf_def)
  ultimately show ?thesis by blast
qed

theorem C6_witness:
  "snd (lambda_handler_aid default_config_aid (calm_world 4 0 1000000000)
          (PDict [(''alert_type'', PStr ''cpu'')])) =
       Inr \<lparr>statusCode = 200, headers = None,
            body = [(''success'', Val (PBool True)),
                    (''timestamp'', Val (PStr ''2025-01-01T00:00:00'')),
                    (''asg_name'', Val (PStr ''production-asg'')),
                    (''action'', Val (PStr ''no_change'')),
                    (''message'', Val (PStr ''Analysis only, no scaling action taken'')),
                    (''current_capacity'', Val (PInt 4))]\<rparr>
   \<and> capacity_calls (fst (lambda_handler_aid default_config_aid (calm_world 4 0 1000000000)
          (PDict [(''alert_type'', PStr ''cpu'')]))) = []
   \<and> snd (lambda_handler_wf default_config_wf (calm_world 4 0 1000000000)
          (PDict [(''action'', PStr ''analyze'')])) =
       Inr (create_response 400
              [(''error'', FString [Txt ''Unknown action: '', Str (PStr ''analyze'')])])
   \<and> capacity_calls (fst (lambda_handler_wf default_config_wf (calm_world 4 0 1000000000)
          (PDict []))) = [Set_desired_capacity ''production-asg'' 6 False]"
  using C6_other_actions
          [where cfg = default_config_aid and w = "calm_world 4 0 1000000000"
             and kvs = "[(''alert_type'', PStr ''cpu'')]"
             and g = "\<lparr>AutoScalingGroupName = ''production-asg'', DesiredCapacity = 4,
                        MinSize = 2, MaxSize = 10, Instances = []\<rparr>" and gs = "[]"
             and cfgw = default_config_wf
             and g' = "\<lparr>AutoScalingGroupName = ''production-asg'', DesiredCapacity = 4,
                        MinSize = 2, MaxSize = 10, Instances = []\<rparr>" and gs' = "[]"
             and kvs' = "[(''action'', PStr ''analyze'')]" and action = "PStr ''analyze''"
             and ?kvs0.0 = "[]" and event = "PDict [(''action'', PStr ''analyze'')]"
             and ?event0.0 = "PDict []"]
  by (simp add: parse_event_direct default_config_aid_def default_config_wf_def calm_world_def
      snd_is_in_cooldown timedelta_seconds_def)

subsection \<open>C8: a failing metrics sink\<close>

text \<open>
  C8. \<^verbatim>\<open>log_scaling_event\<close> and \<^verbatim>\<open>send_scaling_metric\<close> never raise; when
  \<^verbatim>\<open>put_metric_data\<close> raises \<open>e\<close> they print the error after the attempted call
  and return. Whatever the metrics sink answers (\<open>f\<close> in place of the world's own
  \<open>put_metric_data\<close>), each handler returns the same response and makes the same
  capacity calls.
\<close>

theorem C8_metrics_failure_swallowed:
  "snd (log_scaling_event cfg w action alert_type result) = Inr ()
   \<and> (put_metric_data w ''AIIncidentDetection''
          [Metric_datum ''ScalingAction'' 1 ''Count''
             [(''Action'', action), (''AlertType'', alert_type),
              (''ASG'', PStr (AUTO_SCALING_GROUP_NAME cfg))]] = Some e
      \<longrightarrow> fst (log_scaling_event cfg w action alert_type result) =
            [Put_metric_data ''AIIncidentDetection''
               [Metric_datum ''ScalingAction'' 1 ''Count''
                  [(''Action'', action), (''AlertType'', alert_type),
                   (''ASG'', PStr (AUTO_SCALING_GROUP_NAME cfg))]],
             Print [Txt ''Failed to log to CloudWatch: '', StrExn e]])
   \<and> snd (lambda_handler_aid cfg (w\<lparr>put_metric_data := f\<rparr>) event)
       = snd (lambda_handler_aid cfg w event)
   \<and> capacity_calls (fst (lambda_handler_aid cfg (w\<lparr>put_metric_data := f\<rparr>) event))
       = capacity_calls (fst (lambda_handler_aid cfg w event))
   \<and> snd (send_scaling_metric w n alert_type a c) = Inr ()
   \<and> (put_metric_data w ''CustomMetrics/AutoScaling''
          [Metric_datum ''ScalingActivities'' 1 ''Count''
             [(''AutoScalingGroupName'', PStr n), (''AlertType'', alert_type),
              (''Action'', PStr a)],
           Metric_datum ''CapacityChange'' c ''Count''
             [(''AutoScalingGroupName'', PStr n), (''Action'', PStr a)]] = Some e
      \<longrightarrow> fst (send_scaling_metric w n alert_type a c) =
            [Put_metric_data ''CustomMetrics/AutoScaling''
               [Metric_datum ''ScalingActivities'' 1 ''Count''
                  [(''AutoScalingGroupName'', PStr n), (''AlertType'', alert_type),
                   (''Action'', PStr a)],
                Metric_datum ''CapacityChange'' c ''Count''
                  [(''AutoScalingGroupName'', PStr n), (''Action'', PStr a)]],
             Print [Txt ''Error sending metrics: '', StrExn e]])
   \<and> snd (lambda_handler_wf cfgw (w\<lparr>put_metric_data := f\<rparr>) event)
       = snd (lambda_handler_wf cfgw w event)
   \<and> capacity_calls (fst (lambda_handler_wf cfgw (w\<lparr>put_metric_data := f\<rparr>) event))
       = capacity_calls (fst (lambda_handler_wf cfgw w event))"
proof -
  have l: "put_metric_data w ''AIIncidentDetection''
          [Metric_datum ''ScalingAction'' 1 ''Count''
             [(''Action'', action), (''AlertType'', alert_type),
              (''ASG'', PStr (AUTO_SCALING_GROUP_NAME cfg))]] = Some e
      \<longrightarrow> fst (log_scaling_event cfg w action alert_type result) =
            [Put_metric_data ''AIIncidentDetection''
               [Metric_datum ''ScalingAction'' 1 ''Count''
                  [(''Action'', action), (''AlertType'', alert_type),
                   (''ASG'', PStr (AUTO_SCALING_GROUP_NAME cfg))]],
             Print [Txt ''Failed to log to CloudWatch: '', StrExn e]]"
    by (simp add: log_scaling_event_def call_put_metric_data_def io_try_def io_print_def)
  have s: "put_metric_data w ''CustomMetrics/AutoScaling''
          [Metric_datum ''ScalingActivities'' 1 ''Count''
             [(''AutoScalingGroupName'', PStr n), (''AlertType'', alert_type),
              (''Action'', PStr a)],
           Metric_datum ''CapacityChange'' c ''Count''
             [(''AutoScalingGroupName'', PStr n), (''Action'', PStr a)]] = Some e
      \<longrightarrow> fst (send_scaling_metric w n alert_type a c) =
            [Put_metric_data ''CustomMetrics/AutoScaling''
               [Metric_datum ''ScalingActivities'' 1 ''Count''
                  [(''AutoScalingGroupName'', PStr n), (''AlertType'', alert_type),
                   (''Action'', PStr a)],
                Metric_datum ''CapacityChange'' c ''Count''
                  [(''AutoScalingGroupName'', PStr n), (''Action'', PStr a)]],
             Print [Txt ''Error sending metrics: '', StrExn e]]"
    by (simp add: send_scaling_metric_def call_put_metric_data_def io_try_def io_bind_def
        io_print_def)
  show ?thesis
    using l s io_same_aid [where cfg = cfg and w = w and f = f and event = event]
      io_same_wf [where cfg = cfgw and w = w and f = f and event = event]
    by (simp add: io_same_def)
qed

theorem C8_witness:
  "snd (lambda_handler_aid default_config_aid (metrics_down (calm_world 4 0 0))
          (PDict [(''action'', PStr ''scale_up''), (''severity'', PStr ''critical'')]))
     = snd (lambda_handler_aid default_config_aid (calm_world 4 0 0)
          (PDict [(''action'', PStr ''scale_up''), (''severity'', PStr ''critical'')]))
   \<and> capacity_calls (fst (lambda_handler_aid default_config_aid (metrics_down (calm_world 4 0 0))
          (PDict [(''action'', PStr ''scale_up''), (''severity'', PStr ''critical'')])))
     = [Set_desired_capacity ''production-asg'' 8 False]
   \<and> fst (log_scaling_event default_config_aid (metrics_down (calm_world 4 0 0))
          (PStr ''scale_up'') (PStr ''unknown'') []) =
       [Put_metric_data ''AIIncidentDetection''
          [Metric_datum ''ScalingAction'' 1 ''Count''
             [(''Action'', PStr ''scale_up''), (''AlertType'', PStr ''unknown''),
              (''ASG'', PStr ''production-asg'')]],
        Print [Txt ''Failed to log to CloudWatch: '', StrExn (ClientError ''Throttling'')]]
   \<and> fst (send_scaling_metric (metrics_down (calm_world 4 0 0)) ''production-asg''
          (PStr ''cpu'') ''scale_up'' 2) =
       [Put_metric_data ''CustomMetrics/AutoScaling''
          [Metric_datum ''ScalingActivities'' 1 ''Count''
             [(''AutoScalingGroupName'', PStr ''production-asg''), (''AlertType'', PStr ''cpu''),
              (''Action'', PStr ''scale_up'')],
           Metric_datum ''CapacityChange'' 2 ''Count''
             [(''AutoScalingGroupName'', PStr ''production-asg''),
              (''Action'', PStr ''scale_up'')]],
        Print [Txt ''Error sending metrics: '', StrExn (ClientError ''Throttling'')]]"
proof -
  have calls: "capacity_calls (fst (lambda_handler_aid default_config_aid (calm_world 4 0 0)
          (PDict [(''action'', PStr ''scale_up''), (''severity'', PStr ''critical'')])))
     = [Set_desired_capacity ''production-asg'' 8 False]"
    by (simp add: calls_lambda_handler_aid lambda_handler_aid_try_def json_dumps_def py_get_def
        get_asg_info_aid_def io_lift_def fst_io_bind snd_io_bind calls_scale_up_any
        snd_scale_up_any Let_def default_config_aid_def calm_world_def)
  show ?thesis
    using calls
      C8_metrics_failure_swallowed
        [where cfg = default_config_aid and w = "calm_world 4 0 0"
           and f = "\<lambda>ns ms. Some (ClientError ''Throttling'')"
           and event = "PDict [(''action'', PStr ''scale_up''), (''severity'', PStr ''critical'')]"]
      C8_metrics_failure_swallowed
        [where cfg = default_config_aid and w = "metrics_down (calm_world 4 0 0)"
           and action = "PStr ''scale_up''" and alert_type = "PStr ''unknown''"
           and result = "[]" and e = "ClientError ''Throttling''"]
      C8_metrics_failure_swallowed
        [where w = "metrics_down (calm_world 4 0 0)" and n = "''production-asg''"
           and alert_type = "PStr ''cpu''" and a = "''scale_up''" and c = 2
           and e = "ClientError ''Throttling''"]
    by (simp add: metrics_down_def default_config_aid_def)
qed

subsection \<open>C9: the HonorCooldown flag of the capacity calls\<close>

text \<open>
  C9. Every \<^verbatim>\<open>set_desired_capacity\<close> call made by \<^verbatim>\<open>scale_up\<close> and by
  \<^verbatim>\<open>handle_scale_up\<close> has \<open>HonorCooldown = False\<close>, whatever the severity and the
  confidence, and every one made by \<^verbatim>\<open>scale_down\<close> and \<^verbatim>\<open>handle_scale_down\<close> has
  \<open>HonorCooldown = True\<close>. The call is made whenever the planned capacity differs from
  the current one: also for a scale-up whose severity is not critical and whose
  confidence is at most 90.
\<close>

theorem C9_honor_cooldown_flags:
  "(\<forall>n c h. Set_desired_capacity n c h
               \<in> set (fst (scale_up cfg w info alert_type severity conf)) \<longrightarrow> \<not> h)
   \<and> (\<forall>n c h. Set_desired_capacity n c h \<in> set (fst (scale_down cfg w info)) \<longrightarrow> h)
   \<and> (\<forall>m c h. Set_desired_capacity m c h
               \<in> set (fst (handle_scale_up cfgw w n cur alert_type mv conf)) \<longrightarrow> \<not> h)
   \<and> (\<forall>m c h. Set_desired_capacity m c h
               \<in> set (fst (handle_scale_down cfgw w n cur alert_type)) \<longrightarrow> h)
   \<and> (severity \<noteq> PStr ''critical'' \<and> k \<le> 90
        \<and> min (desired_capacity info + SCALE_UP_INCREMENT cfg) (MAX_CAPACITY cfg)
            \<noteq> desired_capacity info
      \<longrightarrow> capacity_calls (fst (scale_up cfg w info alert_type severity (PInt k))) =
            [Set_desired_capacity (AUTO_SCALING_GROUP_NAME cfg)
               (min (desired_capacity info + SCALE_UP_INCREMENT cfg) (MAX_CAPACITY cfg)) False])
   \<and> (max (desired_capacity info - SCALE_DOWN_INCREMENT cfg) (MIN_CAPACITY cfg)
            \<noteq> desired_capacity info
      \<longrightarrow> capacity_calls (fst (scale_down cfg w info)) =
            [Set_desired_capacity (AUTO_SCALING_GROUP_NAME cfg)
               (max (desired_capacity info - SCALE_DOWN_INCREMENT cfg) (MIN_CAPACITY cfg)) True])
   \<and> (cur < min (cur + SCALE_UP_AMOUNT cfgw) (MAX_INSTANCES cfgw)
      \<longrightarrow> capacity_calls (fst (handle_scale_up cfgw w n cur alert_type mv conf)) =
            [Set_desired_capacity n (min (cur + SCALE_UP_AMOUNT cfgw) (MAX_INSTANCES cfgw)) False])
   \<and> (max (cur - 1) (MIN_INSTANCES cfgw) < cur
      \<longrightarrow> capacity_calls (fst (handle_scale_down cfgw w n cur alert_type)) =
            [Set_desired_capacity n (max (cur - 1) (MIN_INSTANCES cfgw)) True])"
proof -
  have p5: "severity \<noteq> PStr ''critical'' \<and> k \<le> 90
        \<and> min (desired_capacity info + SCALE_UP_INCREMENT cfg) (MAX_CAPACITY cfg)
            \<noteq> desired_capacity info
      \<longrightarrow> capacity_calls (fst (scale_up cfg w info alert_type severity (PInt k))) =
            [Set_desired_capacity (AUTO_SCALING_GROUP_NAME cfg)
               (min (desired_capacity info + SCALE_UP_INCREMENT cfg) (MAX_CAPACITY cfg)) False]"
    by (simp add: calls_scale_up Let_def)
  have p6: "max (desired_capacity info - SCALE_DOWN_INCREMENT cfg) (MIN_CAPACITY cfg)
            \<noteq> desired_capacity info
      \<longrightarrow> capacity_calls (fst (scale_down cfg w info)) =
            [Set_desired_capacity (AUTO_SCALING_GROUP_NAME cfg)
               (max (desired_capacity info - SCALE_DOWN_INCREMENT cfg) (MIN_CAPACITY cfg)) True]"
    by (simp add: calls_scale_down Let_def)
  have p7: "cur < min (cur + SCALE_UP_AMOUNT cfgw) (MAX_INSTANCES cfgw)
      \<longrightarrow> capacity_calls (fst (handle_scale_up cfgw w n cur alert_type mv conf)) =
            [Set_desired_capacity n (min (cur + SCALE_UP_AMOUNT cfgw) (MAX_INSTANCES cfgw)) False]"
    by (auto simp add: calls_handle_scale_up Let_def)
  have p8: "max (cur - 1) (MIN_INSTANCES cfgw) < cur
      \<longrightarrow> capacity_calls (fst (handle_scale_down cfgw w n cur alert_type)) =
            [Set_desired_capacity n (max (cur - 1) (MIN_INSTANCES cfgw)) True]"
    by (auto simp add: calls_handle_scale_down Let_def)
  show ?thesis
    using mem_calls_scale_up [of _ _ _ cfg w info alert_type severity conf]
      mem_calls_scale_down [of _ _ _ cfg w info]
      mem_calls_handle_scale_up [of _ _ _ cfgw w n cur alert_type mv conf]
      mem_calls_handle_scale_down [of _ _ _ cfgw w n cur alert_type]
      p5 p6 p7 p8
    by blast
qed

theorem C9_witness:
  "capacity_calls (fst (scale_up default_config_aid (calm_world 4 0 0) (info_of 4)
       (PStr ''cpu'') (PStr ''warning'') (PInt 10)))
     = [Set_desired_capacity ''production-asg'' 6 False]
   \<and> capacity_calls (fst (scale_down default_config_aid (calm_world 4 0 0) (info_of 4)))
     = [Set_desired_capacity ''production-asg'' 3 True]
   \<and> capacity_calls (fst (handle_scale_up default_config_wf (calm_world 4 0 0)
       ''production-asg'' 4 (PStr ''cpu'') (PInt 70) (PStr ''low'')))
     = [Set_desired_capacity ''production-asg'' 6 False]
   \<and> capacity_calls (fst (handle_scale_down default_config_wf (calm_world 4 0 0)
       ''production-asg'' 4 (PStr ''cpu'')))
     = [Set_desired_capacity ''production-asg'' 3 True]"
  using C9_honor_cooldown_flags
          [where cfg = default_config_aid and w = "calm_world 4 0 0" and info = "info_of 4"
             and alert_type = "PStr ''cpu''" and severity = "PStr ''warning''" and k = 10
             and cfgw = default_config_wf and n = "''production-asg''" and cur = 4
             and mv = "PInt 70" and conf = "PStr ''low''"]
  by (simp add: default_config_aid_def default_config_wf_def info_of_def)

subsection \<open>C10: the handlers always answer\<close>

text \<open>
  C10. The claim is that every event, also a malformed one, gets a response record and
  that no exception leaves a handler. \<^verbatim>\<open>autoscale_handler.py\<close> keeps it: its whole
  body, the first \<^verbatim>\<open>print\<close> included, stands inside the \<^verbatim>\<open>try\<close>
  (\<open>lambda_handler_aid_responds\<close>). \<^verbatim>\<open>auto_scale_handler.py\<close> does not: its first
  statement, \<^verbatim>\<open>print(f"Received event: {json.dumps(event)}")\<close>, stands before the
  \<^verbatim>\<open>try\<close>, so the \<^verbatim>\<open>RecursionError\<close> that \<^verbatim>\<open>json.dumps\<close> raises on an event
  nested deeper than the interpreter allows leaves the handler
  (\<open>lambda_handler_wf_raises_iff\<close>). Here the event is a dictionary whose
  \<open>alert_type\<close> is a list nested 1001 levels deep, in a world where
  \<^verbatim>\<open>json.dumps\<close> serialises 1000 levels: the second handler raises before it prints
  anything, and the first handler, on the same event, returns its 500 response.
\<close>

theorem C10_print_before_try_raises:
  "lambda_handler_wf default_config_wf (calm_world 4 0 0)
     (PDict [(''alert_type'', nested 1000)]) =
     ([], Inl (RecursionError
                 ''maximum recursion depth exceeded while encoding a JSON object''))
   \<and> snd (lambda_handler_aid default_config_aid (calm_world 4 0 0)
          (PDict [(''alert_type'', nested 1000)])) =
     Inr \<lparr>statusCode = 500, headers = None,
          body = [(''success'', Val (PBool False)),
                  (''error'', FString [StrExn (RecursionError
                      ''maximum recursion depth exceeded while encoding a JSON object'')]),
                  (''timestamp'', Val (PStr ''2025-01-01T00:00:00''))]\<rparr>"
proof -
  have deep: "dumps_depth_limit (calm_world 4 0 0)
                < depth (PDict [(''alert_type'', nested 1000)])"
    by (simp add: depth_nested)
  have "now_isoformat (calm_world 4 0 0) = ''2025-01-01T00:00:00''"
    by (simp add: calm_world_def)
  then show ?thesis
    by (simp add: lambda_handler_wf_deep [OF deep] lambda_handler_aid_try_deep [OF deep]
        snd_lambda_handler_aid io_raise_def)
qed

end
